theory Spec2Isabelle
  imports Complex_Main "HOL-Library.Multiset" "HOL-Library.Product_Lexorder"
begin

section \<open>Data model\<close>

text \<open>
  The handlers of the visitor-management API read and write a relational store through
  Prisma. The store is modelled as a record of tables, each table a list of rows in
  insertion order. Identifiers (cuid strings in the source) are natural numbers, and a
  timestamp is the number of milliseconds since the epoch, as \<open>Date.getTime()\<close> returns it.
  Only the columns the handlers below read or write are kept; free-text columns that no
  branch depends on (description, location, address and the like) are left out.

  A handler is modelled for an authenticated request whose role is permitted. It takes
  the store and the clock readings it makes (\<open>new Date()\<close>) and returns its response
  together with the store it leaves behind, which differs from the one it was given also
  on some error paths, since no handler runs in a transaction. The route wrappers
  \<open>withAuth\<close> and \<open>withRole\<close> are modelled where a handler depends on what they hand
  on: the two PUT routes with a path parameter. Of the schema checks, those on fields the
  model keeps are modelled (durations, satisfaction ratings, titles); numbers are
  integers and date strings are the timestamps they parse to.
\<close>

type_synonym ident = nat
type_synonym timestamp = int

text \<open>
  Modelled from the spec: the enumerations \<open>VisitStatus\<close>, \<open>AppointmentStatus\<close>,
  \<open>Priority\<close> and \<open>IssueStatus\<close> come from the Prisma schema, which is not among
  the source files; their members are the ones the specification lists and the handlers
  name. The appointment and issue members carry a prefix because HOL constructors share
  one name space.
\<close>

datatype VisitStatus = IN_PROGRESS | COMPLETED | CANCELLED | NO_SHOW

datatype AppointmentStatus =
  APPT_PENDING | APPT_CONFIRMED | APPT_COMPLETED | APPT_CANCELLED | APPT_NO_SHOW

datatype Priority = URGENT | HIGH | NORMAL | LOW

datatype IssueStatus =
  ISSUE_OPEN | ISSUE_IN_PROGRESS | ISSUE_RESOLVED | ISSUE_CLOSED | ISSUE_ESCALATED

text \<open>
  A request field declared \<open>.optional().nullable()\<close> has three shapes: left out
  (\<open>undefined\<close>), \<open>null\<close>, or a value. Prisma leaves a column alone when the
  update data holds \<open>undefined\<close> and writes NULL when it holds \<open>null\<close>.
\<close>

datatype 'a field = Absent | Null | Given 'a

record Visitor =
  visitor_id :: ident
  visitCount :: int
  lastVisit :: "timestamp option"
  isActive :: bool

record Appointment =
  appt_id :: ident
  appt_title :: string
  appt_visitorId :: ident
  appt_userId :: ident
  scheduledDate :: timestamp
  startTime :: timestamp
  endTime :: timestamp
  duration :: int
  appt_status :: AppointmentStatus
  priority :: Priority

record Visit =
  visit_id :: ident
  visit_visitorId :: ident
  visit_userId :: ident
  appointmentId :: "ident option"
  checkInTime :: timestamp
  checkOutTime :: "timestamp option"
  visit_status :: VisitStatus
  visit_purpose :: "string option"
  visit_notes :: "string option"
  satisfaction :: "int option"

record Issue =
  issue_id :: ident
  issue_title :: string
  issue_status :: IssueStatus
  assignedUserId :: "ident option"
  dueDate :: "timestamp option"
  resolvedDate :: "timestamp option"

record Database =
  visitors :: "Visitor list"
  users :: "ident list"
  appointments :: "Appointment list"
  visits :: "Visit list"
  issues :: "Issue list"
  nextId :: ident

text \<open>
  The error envelope of the handlers: each constructor is one of the JSON error
  responses, \<open>httpStatus\<close> its status code. \<open>InternalError\<close> is the catch-all
  branch of every handler's \<open>try/catch\<close>.
\<close>

datatype error =
  ValidationError
  | NotFound string
  | Conflict string
  | InvalidState string
  | InternalError

fun httpStatus :: "error \<Rightarrow> nat" where
  "httpStatus ValidationError = 400"
| "httpStatus (NotFound m) = 404"
| "httpStatus (Conflict m) = 409"
| "httpStatus (InvalidState m) = 400"
| "httpStatus InternalError = 500"

section \<open>Store access\<close>

text \<open>
  \<open>findUnique\<close> and \<open>findFirst\<close> return the first row that matches;
  \<open>update\<close> with a \<open>where: { id }\<close> clause rewrites that same row.
\<close>

fun updateFirst :: "('a \<Rightarrow> bool) \<Rightarrow> ('a \<Rightarrow> 'a) \<Rightarrow> 'a list \<Rightarrow> 'a list" where
  "updateFirst p f [] = []"
| "updateFirst p f (x # xs) = (if p x then f x # xs else x # updateFirst p f xs)"

definition findVisitor :: "Database \<Rightarrow> ident \<Rightarrow> Visitor option" where
  "findVisitor db i = find (\<lambda>v. visitor_id v = i) (visitors db)"

definition findUser :: "Database \<Rightarrow> ident \<Rightarrow> ident option" where
  "findUser db i = find (\<lambda>u. u = i) (users db)"

definition findAppointment :: "Database \<Rightarrow> ident \<Rightarrow> Appointment option" where
  "findAppointment db i = find (\<lambda>a. appt_id a = i) (appointments db)"

definition findVisit :: "Database \<Rightarrow> ident \<Rightarrow> Visit option" where
  "findVisit db i = find (\<lambda>v. visit_id v = i) (visits db)"

definition findActiveVisit :: "Database \<Rightarrow> ident \<Rightarrow> Visit option" where
  "findActiveVisit db vid =
     find (\<lambda>v. visit_visitorId v = vid \<and> visit_status v = IN_PROGRESS) (visits db)"

definition setAppointmentStatus :: "ident \<Rightarrow> AppointmentStatus \<Rightarrow> Database \<Rightarrow> Database" where
  "setAppointmentStatus i s db =
     db\<lparr>appointments := updateFirst (\<lambda>a. appt_id a = i) (\<lambda>a. a\<lparr>appt_status := s\<rparr>) (appointments db)\<rparr>"

definition updateVisitRow :: "ident \<Rightarrow> (Visit \<Rightarrow> Visit) \<Rightarrow> Database \<Rightarrow> Database" where
  "updateVisitRow i f db = db\<lparr>visits := updateFirst (\<lambda>v. visit_id v = i) f (visits db)\<rparr>"

definition bumpVisitor :: "ident \<Rightarrow> timestamp \<Rightarrow> Database \<Rightarrow> Database" where
  "bumpVisitor i t db =
     db\<lparr>visitors := updateFirst (\<lambda>v. visitor_id v = i)
        (\<lambda>v. v\<lparr>visitCount := visitCount v + 1, lastVisit := Some t\<rparr>) (visitors db)\<rparr>"

text \<open>JavaScript's \<open>a || b\<close> on nullable strings: the empty string is falsy.\<close>

definition strOr :: "string option \<Rightarrow> string option \<Rightarrow> string option" where
  "strOr a b = (case a of None \<Rightarrow> b | Some s \<Rightarrow> if s = [] then b else Some s)"

section \<open>Check-in: POST /visits and POST /queue/actions?action=checkin\<close>

record CheckInReq =
  ci_visitorId :: ident
  ci_userId :: ident
  ci_appointmentId :: "ident option"
  ci_purpose :: "string option"
  ci_notes :: "string option"

definition newVisit :: "timestamp \<Rightarrow> CheckInReq \<Rightarrow> Database \<Rightarrow> Visit" where
  "newVisit t rq db =
     \<lparr>visit_id = nextId db, visit_visitorId = ci_visitorId rq, visit_userId = ci_userId rq,
      appointmentId = ci_appointmentId rq, checkInTime = t, checkOutTime = None,
      visit_status = IN_PROGRESS, visit_purpose = ci_purpose rq, visit_notes = ci_notes rq,
      satisfaction = None\<rparr>"

definition insertVisit :: "Visit \<Rightarrow> Database \<Rightarrow> Database" where
  "insertVisit v db = db\<lparr>visits := visits db @ [v], nextId := Suc (nextId db)\<rparr>"

text \<open>
  \<open>createVisit\<close> (visits/route.ts): visitor, user, then the appointment lookup and its
  status update, and only then the active-visit check. The two clock readings are the
  two \<open>new Date()\<close> calls (check-in time, last visit).
\<close>

definition createVisit ::
  "timestamp \<Rightarrow> timestamp \<Rightarrow> CheckInReq \<Rightarrow> Database \<Rightarrow> (error + Visit) \<times> Database" where
  "createVisit t1 t2 rq db =
     (case findVisitor db (ci_visitorId rq) of
        None \<Rightarrow> (Inl (NotFound ''Visitor not found''), db)
      | Some visitor \<Rightarrow>
     (case findUser db (ci_userId rq) of
        None \<Rightarrow> (Inl (NotFound ''User not found''), db)
      | Some user \<Rightarrow>
     (case (case ci_appointmentId rq of
              None \<Rightarrow> Inr db
            | Some aid \<Rightarrow>
                (case findAppointment db aid of
                   None \<Rightarrow> Inl (NotFound ''Appointment not found'')
                 | Some appointment \<Rightarrow> Inr (setAppointmentStatus aid APPT_COMPLETED db))) of
        Inl e \<Rightarrow> (Inl e, db)
      | Inr db1 \<Rightarrow>
     (case findActiveVisit db1 (ci_visitorId rq) of
        Some activeVisit \<Rightarrow> (Inl (Conflict ''Visitor already has an active visit''), db1)
      | None \<Rightarrow>
          (let visit = newVisit t1 rq db1;
               db2 = insertVisit visit db1;
               db3 = bumpVisitor (ci_visitorId rq) t2 db2
           in (Inr visit, db3))))))"

text \<open>
  \<open>checkInVisitor\<close> (queue/actions/route.ts): the active-visit check comes before the
  appointment lookup, and the appointment is set to CONFIRMED.
\<close>

definition checkInVisitor ::
  "timestamp \<Rightarrow> timestamp \<Rightarrow> CheckInReq \<Rightarrow> Database \<Rightarrow> (error + Visit) \<times> Database" where
  "checkInVisitor t1 t2 rq db =
     (case findVisitor db (ci_visitorId rq) of
        None \<Rightarrow> (Inl (NotFound ''Visitor not found''), db)
      | Some visitor \<Rightarrow>
     (case findUser db (ci_userId rq) of
        None \<Rightarrow> (Inl (NotFound ''User not found''), db)
      | Some user \<Rightarrow>
     (case findActiveVisit db (ci_visitorId rq) of
        Some activeVisit \<Rightarrow> (Inl (Conflict ''Visitor already has an active visit''), db)
      | None \<Rightarrow>
     (case (case ci_appointmentId rq of
              None \<Rightarrow> Inr db
            | Some aid \<Rightarrow>
                (case findAppointment db aid of
                   None \<Rightarrow> Inl (NotFound ''Appointment not found'')
                 | Some appointment \<Rightarrow> Inr (setAppointmentStatus aid APPT_CONFIRMED db))) of
        Inl e \<Rightarrow> (Inl e, db)
      | Inr db1 \<Rightarrow>
          (let visit = newVisit t1 rq db1;
               db2 = insertVisit visit db1;
               db3 = bumpVisitor (ci_visitorId rq) t2 db2
           in (Inr visit, db3))))))"

section \<open>Check-out and cancel: POST /queue/actions?action=checkout|cancel\<close>

record CheckOutReq =
  co_visitId :: ident
  co_notes :: "string option"
  co_satisfaction :: "int field"

text \<open>The schema check \<open>z.number().min(1).max(5).optional().nullable()\<close>.\<close>

definition validSatisfaction :: "int field \<Rightarrow> bool" where
  "validSatisfaction s = (case s of Given n \<Rightarrow> 1 \<le> n \<and> n \<le> 5 | _ \<Rightarrow> True)"

definition applyField :: "'a field \<Rightarrow> 'a option \<Rightarrow> 'a option" where
  "applyField f old = (case f of Absent \<Rightarrow> old | Null \<Rightarrow> None | Given x \<Rightarrow> Some x)"

text \<open>
  The linked appointment is updated after the visit row. Prisma's \<open>update\<close> throws when
  no row has the id, which the handler's \<open>catch\<close> turns into a 500 with the visit row
  already rewritten.
\<close>

definition closeLinkedAppointment ::
  "Visit \<Rightarrow> AppointmentStatus \<Rightarrow> Visit \<Rightarrow> Database \<Rightarrow> (error + Visit) \<times> Database" where
  "closeLinkedAppointment visit s updated db =
     (case appointmentId visit of
        None \<Rightarrow> (Inr updated, db)
      | Some aid \<Rightarrow>
          (case findAppointment db aid of
             None \<Rightarrow> (Inl InternalError, db)
           | Some a \<Rightarrow> (Inr updated, setAppointmentStatus aid s db)))"

definition checkOutVisitor ::
  "timestamp \<Rightarrow> CheckOutReq \<Rightarrow> Database \<Rightarrow> (error + Visit) \<times> Database" where
  "checkOutVisitor now rq db =
     (if \<not> validSatisfaction (co_satisfaction rq) then (Inl ValidationError, db)
      else
     (case findVisit db (co_visitId rq) of
        None \<Rightarrow> (Inl (NotFound ''Visit not found''), db)
      | Some visit \<Rightarrow>
          if visit_status visit \<noteq> IN_PROGRESS
          then (Inl (InvalidState ''Visit is not in progress''), db)
          else
            (let updated = visit\<lparr>visit_status := COMPLETED, checkOutTime := Some now,
                                 visit_notes := strOr (co_notes rq) (visit_notes visit),
                                 satisfaction := applyField (co_satisfaction rq) (satisfaction visit)\<rparr>;
                 db1 = updateVisitRow (co_visitId rq) (\<lambda>v. updated) db
             in closeLinkedAppointment visit APPT_COMPLETED updated db1)))"

record CancelReq =
  ca_visitId :: ident
  ca_notes :: "string option"

definition cancelVisit ::
  "timestamp \<Rightarrow> CancelReq \<Rightarrow> Database \<Rightarrow> (error + Visit) \<times> Database" where
  "cancelVisit now rq db =
     (case findVisit db (ca_visitId rq) of
        None \<Rightarrow> (Inl (NotFound ''Visit not found''), db)
      | Some visit \<Rightarrow>
          if visit_status visit \<noteq> IN_PROGRESS
          then (Inl (InvalidState ''Visit is not in progress''), db)
          else
            (let updated = visit\<lparr>visit_status := CANCELLED, checkOutTime := Some now,
                                 visit_notes := strOr (ca_notes rq) (visit_notes visit)\<rparr>;
                 db1 = updateVisitRow (ca_visitId rq) (\<lambda>v. updated) db
             in closeLinkedAppointment visit APPT_CANCELLED updated db1))"

section \<open>Route wrappers\<close>

text \<open>
  Every exported route is \<open>withAuth(handler)\<close> or
  \<open>withAuth(withRole(roles)(handler))\<close> (middleware.ts). The function that
  \<open>withAuth\<close> returns takes the request alone and calls \<open>handler(authenticatedReq)\<close>:
  the second argument the framework passes to a route with a path parameter, the context
  that holds \<open>params.id\<close>, is not handed on. \<open>withRole\<close> forwards the further
  arguments it is given, and under \<open>withAuth\<close> it is given none. A handler's context is
  therefore an option, and it is \<open>None\<close> whenever the handler runs behind \<open>withAuth\<close>.
  The wrappers' own 401 and 403 answers are left out.
\<close>

definition withAuth :: "('c option \<Rightarrow> 'r) \<Rightarrow> 'c option \<Rightarrow> 'r" where
  "withAuth handler context = handler None"

definition withRole :: "('c option \<Rightarrow> 'r) \<Rightarrow> 'c option \<Rightarrow> 'r" where
  "withRole handler context = handler context"

section \<open>Visit update: PUT /visits/{id}\<close>

record VisitPatch =
  up_status :: "VisitStatus option"
  up_purpose :: "string field"
  up_notes :: "string field"
  up_satisfaction :: "int field"

text \<open>
  The first statement of \<open>updateVisit\<close> is \<open>const { id } = context.params\<close>, inside
  the \<open>try\<close>: without a context it throws, and the catch-all answers 500 before the body
  is parsed and before any store call. With a context the handler writes the validated
  patch as it is; its one rule is that a patch that sets COMPLETED on a visit that is not
  COMPLETED also stamps the check-out time.
\<close>

definition applyVisitPatch :: "timestamp \<Rightarrow> VisitPatch \<Rightarrow> Visit \<Rightarrow> Visit" where
  "applyVisitPatch now p v =
     v\<lparr>visit_status := (case up_status p of None \<Rightarrow> visit_status v | Some s \<Rightarrow> s),
       visit_purpose := applyField (up_purpose p) (visit_purpose v),
       visit_notes := applyField (up_notes p) (visit_notes v),
       satisfaction := applyField (up_satisfaction p) (satisfaction v),
       checkOutTime := (if up_status p = Some COMPLETED \<and> visit_status v \<noteq> COMPLETED
                        then Some now else checkOutTime v)\<rparr>"

definition updateVisit ::
  "timestamp \<Rightarrow> ident option \<Rightarrow> VisitPatch \<Rightarrow> Database \<Rightarrow> (error + Visit) \<times> Database" where
  "updateVisit now context p db =
     (case context of
        None \<Rightarrow> (Inl InternalError, db)
      | Some i \<Rightarrow>
     (if \<not> validSatisfaction (up_satisfaction p) then (Inl ValidationError, db)
      else
     (case findVisit db i of
        None \<Rightarrow> (Inl (NotFound ''Visit not found''), db)
      | Some existingVisit \<Rightarrow>
          (Inr (applyVisitPatch now p existingVisit),
           updateVisitRow i (applyVisitPatch now p) db))))"

text \<open>
  The exported route, \<open>PUT = withAuth(withRole([...])(updateVisit))\<close>, called by the
  framework with the request and the context of visit \<open>i\<close>.
\<close>

definition PUT_visit ::
  "timestamp \<Rightarrow> ident \<Rightarrow> VisitPatch \<Rightarrow> Database \<Rightarrow> (error + Visit) \<times> Database" where
  "PUT_visit now i p db =
     withAuth (withRole (\<lambda>context. updateVisit now context p db)) (Some i)"


section \<open>Scheduling: POST /appointments\<close>

text \<open>
  The request after \<open>createAppointmentSchema.parse\<close>. The two date strings are kept as
  the timestamps the handler derives from them: \<open>ap_scheduledDate\<close> is
  \<open>new Date(scheduledDate)\<close> and \<open>ap_startTime\<close> is
  \<open>new Date(`${scheduledDate}T${startTime}`)\<close>. Duration and priority have schema
  defaults (30 and NORMAL).
\<close>

record CreateAppointmentReq =
  ap_title :: string
  ap_visitorId :: ident
  ap_userId :: ident
  ap_scheduledDate :: timestamp
  ap_startTime :: timestamp
  ap_duration :: "int option"
  ap_priority :: "Priority option"

definition effectiveDuration :: "CreateAppointmentReq \<Rightarrow> int" where
  "effectiveDuration rq = (case ap_duration rq of None \<Rightarrow> 30 | Some d \<Rightarrow> d)"

definition validCreateAppointment :: "CreateAppointmentReq \<Rightarrow> bool" where
  "validCreateAppointment rq \<longleftrightarrow>
     ap_title rq \<noteq> [] \<and> 15 \<le> effectiveDuration rq \<and> effectiveDuration rq \<le> 240"

text \<open>
  The \<open>OR\<close> of the three \<open>AND\<close> pairs in the conflict query, for a new interval from
  \<open>s\<close> to \<open>e\<close>: the new start lies inside the existing appointment, the new end lies
  inside it, or the new interval contains it.
\<close>

definition threeWayOverlap :: "timestamp \<Rightarrow> timestamp \<Rightarrow> Appointment \<Rightarrow> bool" where
  "threeWayOverlap s e a \<longleftrightarrow>
     (startTime a \<le> s \<and> endTime a > s) \<or>
     (startTime a < e \<and> endTime a \<ge> e) \<or>
     (startTime a \<ge> s \<and> endTime a \<le> e)"

text \<open>
  The specification's reading of the rule: the half-open intervals
  \<open>[startTime a, endTime a)\<close> and \<open>[s, e)\<close> share a point.
\<close>

definition spec_halfOpenOverlap :: "timestamp \<Rightarrow> timestamp \<Rightarrow> Appointment \<Rightarrow> bool" where
  "spec_halfOpenOverlap s e a \<longleftrightarrow> startTime a < e \<and> s < endTime a"

definition blocksSchedule :: "ident \<Rightarrow> timestamp \<Rightarrow> timestamp \<Rightarrow> timestamp \<Rightarrow> Appointment \<Rightarrow> bool" where
  "blocksSchedule uid date s e a \<longleftrightarrow>
     appt_userId a = uid \<and> scheduledDate a = date \<and> threeWayOverlap s e a \<and>
     appt_status a \<noteq> APPT_CANCELLED \<and> appt_status a \<noteq> APPT_NO_SHOW"

definition findConflicts ::
  "Database \<Rightarrow> ident \<Rightarrow> timestamp \<Rightarrow> timestamp \<Rightarrow> timestamp \<Rightarrow> Appointment list" where
  "findConflicts db uid date s e = filter (blocksSchedule uid date s e) (appointments db)"

text \<open>
  Modelled from the spec: the status column's default, \<open>PENDING\<close>, is set by the Prisma
  schema, which is not among the source files.
\<close>

definition newAppointment :: "CreateAppointmentReq \<Rightarrow> Database \<Rightarrow> Appointment" where
  "newAppointment rq db =
     \<lparr>appt_id = nextId db, appt_title = ap_title rq, appt_visitorId = ap_visitorId rq,
      appt_userId = ap_userId rq, scheduledDate = ap_scheduledDate rq,
      startTime = ap_startTime rq,
      endTime = ap_startTime rq + effectiveDuration rq * 60000,
      duration = effectiveDuration rq, appt_status = APPT_PENDING,
      priority = (case ap_priority rq of None \<Rightarrow> NORMAL | Some p \<Rightarrow> p)\<rparr>"

definition insertAppointment :: "Appointment \<Rightarrow> Database \<Rightarrow> Database" where
  "insertAppointment a db = db\<lparr>appointments := appointments db @ [a], nextId := Suc (nextId db)\<rparr>"

definition createAppointment ::
  "CreateAppointmentReq \<Rightarrow> Database \<Rightarrow> (error + Appointment) \<times> Database" where
  "createAppointment rq db =
     (if \<not> validCreateAppointment rq then (Inl ValidationError, db)
      else
        (let scheduledDateTime = ap_startTime rq;
             endT = scheduledDateTime + effectiveDuration rq * 60000;
             conflicts = findConflicts db (ap_userId rq) (ap_scheduledDate rq) scheduledDateTime endT
         in if length conflicts > 0
            then (Inl (Conflict ''Scheduling conflict detected. Please choose a different time.''), db)
            else
              (case findVisitor db (ap_visitorId rq) of
                 None \<Rightarrow> (Inl (NotFound ''Visitor not found''), db)
               | Some visitor \<Rightarrow>
              (case findUser db (ap_userId rq) of
                 None \<Rightarrow> (Inl (NotFound ''User not found''), db)
               | Some user \<Rightarrow>
                   (let appointment = newAppointment rq db
                    in (Inr appointment, insertAppointment appointment db))))))"

section \<open>Free slots: GET /appointments/calendar\<close>

text \<open>
  The handler fetches the appointments whose \<open>scheduledDate\<close> lies in the requested
  range (of one staff member when \<open>userId\<close> is given), ordered by start time, and groups
  them by the UTC day of \<open>scheduledDate\<close> (\<open>toISOString().split('T')[0]\<close>). A day
  is its number since the epoch; \<open>tz\<close> is the server's offset from UTC in milliseconds,
  since the slot boundaries are built as local times of that day.
\<close>

definition calendarFetch ::
  "Database \<Rightarrow> timestamp \<Rightarrow> timestamp \<Rightarrow> ident option \<Rightarrow> Appointment list" where
  "calendarFetch db startDate endDate userId =
     sort_key startTime
       (filter (\<lambda>a. startDate \<le> scheduledDate a \<and> scheduledDate a \<le> endDate \<and>
                    (case userId of None \<Rightarrow> True | Some u \<Rightarrow> appt_userId a = u))
          (appointments db))"

definition dateKey :: "Appointment \<Rightarrow> int" where
  "dateKey a = scheduledDate a div 86400000"

text \<open>The keys of \<open>appointmentsByDate\<close>, in the order of their first insertion.\<close>

fun dateKeys :: "Appointment list \<Rightarrow> int list" where
  "dateKeys [] = []"
| "dateKeys (a # as) = dateKey a # filter (\<lambda>d. d \<noteq> dateKey a) (dateKeys as)"

definition appointmentsByDate :: "Appointment list \<Rightarrow> int \<Rightarrow> Appointment list" where
  "appointmentsByDate fetched d = filter (\<lambda>a. dateKey a = d) fetched"

text \<open>
  The two nested loops: hours 9 to 16, minutes 0 and 30. A slot is kept when no
  appointment of the day satisfies \<open>slotStart < aptEnd && slotEnd > aptStart\<close>.
\<close>

definition slotStart :: "int \<Rightarrow> int \<Rightarrow> nat \<Rightarrow> nat \<Rightarrow> timestamp" where
  "slotStart tz d hour minute = d * 86400000 - tz + int hour * 3600000 + int minute * 60000"

definition candidateSlots :: "int \<Rightarrow> int \<Rightarrow> (timestamp \<times> timestamp) list" where
  "candidateSlots tz d =
     concat (map (\<lambda>hour. map (\<lambda>minute. (slotStart tz d hour minute,
                                         slotStart tz d hour minute + 30 * 60000))
                          [0, 30])
                 [9..<17])"

definition isAvailable :: "Appointment list \<Rightarrow> timestamp \<times> timestamp \<Rightarrow> bool" where
  "isAvailable dayAppointments slot \<longleftrightarrow>
     \<not> list_ex (\<lambda>apt. fst slot < endTime apt \<and> snd slot > startTime apt) dayAppointments"

definition availableSlots ::
  "int \<Rightarrow> Database \<Rightarrow> timestamp \<Rightarrow> timestamp \<Rightarrow> ident option \<Rightarrow>
   (int \<times> (timestamp \<times> timestamp) list) list" where
  "availableSlots tz db startDate endDate userId =
     (let fetched = calendarFetch db startDate endDate userId
      in map (\<lambda>d. (d, filter (isAvailable (appointmentsByDate fetched d)) (candidateSlots tz d)))
             (dateKeys fetched))"

text \<open>
  What the claim asks of a slot: no appointment of that staff member on that day, other
  than cancelled ones, overlaps it.
\<close>

definition spec_slotFree :: "Database \<Rightarrow> ident \<Rightarrow> int \<Rightarrow> timestamp \<times> timestamp \<Rightarrow> bool" where
  "spec_slotFree db u d slot \<longleftrightarrow>
     \<not> list_ex (\<lambda>a. appt_userId a = u \<and> dateKey a = d \<and> appt_status a \<noteq> APPT_CANCELLED \<and>
                    fst slot < endTime a \<and> snd slot > startTime a) (appointments db)"

section \<open>Queue view: GET /queue\<close>

text \<open>
  A fetched visit row with the relations its query includes. The query for the active
  visits includes \<open>appointment\<close>; the query for today's completed visits includes only
  \<open>visitor\<close> and \<open>user\<close>, so \<open>visit.appointment\<close> is \<open>undefined\<close> on its rows.
\<close>

record QueueRow =
  qr_visit :: Visit
  qr_appointment :: "Appointment option"

definition userMatches :: "ident option \<Rightarrow> Visit \<Rightarrow> bool" where
  "userMatches userId v = (case userId of None \<Rightarrow> True | Some u \<Rightarrow> visit_userId v = u)"

definition includeAppointment :: "Database \<Rightarrow> Visit \<Rightarrow> QueueRow" where
  "includeAppointment db v =
     \<lparr>qr_visit = v,
      qr_appointment = (case appointmentId v of None \<Rightarrow> None | Some aid \<Rightarrow> findAppointment db aid)\<rparr>"

definition activeVisits :: "Database \<Rightarrow> ident option \<Rightarrow> QueueRow list" where
  "activeVisits db userId =
     sort_key (\<lambda>r. checkInTime (qr_visit r))
       (map (includeAppointment db)
          (filter (\<lambda>v. visit_status v = IN_PROGRESS \<and> userMatches userId v) (visits db)))"

definition completedVisitsToday ::
  "Database \<Rightarrow> timestamp \<Rightarrow> timestamp \<Rightarrow> ident option \<Rightarrow> QueueRow list" where
  "completedVisitsToday db today tomorrow userId =
     map (\<lambda>v. \<lparr>qr_visit = v, qr_appointment = None\<rparr>)
       (filter (\<lambda>v. visit_status v = COMPLETED \<and> today \<le> checkInTime v \<and>
                    checkInTime v < tomorrow \<and> userMatches userId v) (visits db))"

fun priorityOrder :: "Priority \<Rightarrow> int" where
  "priorityOrder URGENT = 4"
| "priorityOrder HIGH = 3"
| "priorityOrder NORMAL = 2"
| "priorityOrder LOW = 1"

definition rowPriority :: "QueueRow \<Rightarrow> Priority" where
  "rowPriority r = (case qr_appointment r of None \<Rightarrow> NORMAL | Some a \<Rightarrow> priority a)"

text \<open>The comparator handed to \<open>Array.prototype.sort\<close>.\<close>

definition compareVisits :: "QueueRow \<Rightarrow> QueueRow \<Rightarrow> int" where
  "compareVisits a b =
     (let priorityA = rowPriority a; priorityB = rowPriority b
      in if priorityA \<noteq> priorityB then priorityOrder priorityB - priorityOrder priorityA
         else checkInTime (qr_visit a) - checkInTime (qr_visit b))"

text \<open>
  \<open>Array.prototype.sort\<close> is stable and, for a consistent comparator, returns the
  elements in comparator order. It is modelled as the stable insertion sort.
\<close>

fun insertBy :: "('a \<Rightarrow> 'a \<Rightarrow> int) \<Rightarrow> 'a \<Rightarrow> 'a list \<Rightarrow> 'a list" where
  "insertBy cmp x [] = [x]"
| "insertBy cmp x (y # ys) = (if cmp x y \<le> 0 then x # y # ys else y # insertBy cmp x ys)"

definition jsSort :: "('a \<Rightarrow> 'a \<Rightarrow> int) \<Rightarrow> 'a list \<Rightarrow> 'a list" where
  "jsSort cmp xs = foldr (insertBy cmp) xs []"

definition sortedActiveVisits :: "Database \<Rightarrow> ident option \<Rightarrow> QueueRow list" where
  "sortedActiveVisits db userId = jsSort compareVisits (activeVisits db userId)"

text \<open>
  The order the specification describes: a row may stand before another when its priority
  is higher, or the priorities are equal and it checked in no later.
\<close>

definition spec_queueBefore :: "QueueRow \<Rightarrow> QueueRow \<Rightarrow> bool" where
  "spec_queueBefore a b \<longleftrightarrow>
     priorityOrder (rowPriority a) > priorityOrder (rowPriority b) \<or>
     (rowPriority a = rowPriority b \<and> checkInTime (qr_visit a) \<le> checkInTime (qr_visit b))"

definition queueKey :: "QueueRow \<Rightarrow> Priority \<times> timestamp" where
  "queueKey r = (rowPriority r, checkInTime (qr_visit r))"

text \<open>
  The comparator as a key in the lexicographic order on pairs: the negated priority rank,
  then the check-in time.
\<close>

definition sortKey :: "QueueRow \<Rightarrow> int \<times> int" where
  "sortKey r = (- priorityOrder (rowPriority r), checkInTime (qr_visit r))"

text \<open>
  The two averages. JavaScript's number division is modelled as exact division of
  rationals; the sums are sums of integer millisecond differences.
\<close>

definition totalWaitTime :: "QueueRow list \<Rightarrow> int" where
  "totalWaitTime rows =
     foldl (\<lambda>sum visit.
              case qr_appointment visit of
                Some appointment \<Rightarrow> sum + (checkInTime (qr_visit visit) - startTime appointment)
              | None \<Rightarrow> sum) 0 rows"

definition totalDuration :: "QueueRow list \<Rightarrow> int" where
  "totalDuration rows =
     foldl (\<lambda>sum visit.
              case checkOutTime (qr_visit visit) of
                Some t \<Rightarrow> sum + (t - checkInTime (qr_visit visit))
              | None \<Rightarrow> sum) 0 rows"

definition averageWaitTime :: "QueueRow list \<Rightarrow> rat" where
  "averageWaitTime completed =
     (if length completed > 0
      then of_int (totalWaitTime completed) / of_nat (length completed) / (1000 * 60)
      else 0)"

definition averageVisitDuration :: "QueueRow list \<Rightarrow> rat" where
  "averageVisitDuration completed =
     (if length completed > 0
      then of_int (totalDuration completed) / of_nat (length completed) / (1000 * 60)
      else 0)"

definition queueStats ::
  "Database \<Rightarrow> timestamp \<Rightarrow> timestamp \<Rightarrow> ident option \<Rightarrow> nat \<times> nat \<times> rat \<times> rat" where
  "queueStats db today tomorrow userId =
     (let completed = completedVisitsToday db today tomorrow userId
      in (length (activeVisits db userId), length completed,
          averageWaitTime completed, averageVisitDuration completed))"

text \<open>
  What the claim asks of the average wait: the mean, over today's completed visits with
  their linked appointments, of check-in time minus appointment start, in minutes.
\<close>

definition spec_averageWaitTime ::
  "Database \<Rightarrow> timestamp \<Rightarrow> timestamp \<Rightarrow> ident option \<Rightarrow> rat" where
  "spec_averageWaitTime db today tomorrow userId =
     averageWaitTime
       (map (\<lambda>r. includeAppointment db (qr_visit r))
            (completedVisitsToday db today tomorrow userId))"

section \<open>Issue update: PUT /issues/{id}\<close>

record IssuePatch =
  ip_title :: "string option"
  ip_status :: "IssueStatus option"
  ip_assignedUserId :: "ident field"
  ip_dueDate :: "string field"
  ip_resolvedDate :: "string field"

text \<open>
  What \<open>updateData\<close> holds for a date column: \<open>null\<close>, a valid \<open>Date\<close>, or a value
  the store refuses (an Invalid Date, or the empty string, which the truthiness test
  \<open>if (validatedData.resolvedDate)\<close> leaves unconverted). \<open>None\<close> is a key that is
  not set. The \<open>Date\<close> constructor is the parameter \<open>parse\<close>.
\<close>

datatype dateValue = DateNull | DateOk timestamp | DateBad

definition patchDate :: "(string \<Rightarrow> timestamp option) \<Rightarrow> string field \<Rightarrow> dateValue option" where
  "patchDate parse f =
     (case f of
        Absent \<Rightarrow> None
      | Null \<Rightarrow> Some DateNull
      | Given s \<Rightarrow>
          if s = [] then Some DateBad
          else (case parse s of None \<Rightarrow> Some DateBad | Some t \<Rightarrow> Some (DateOk t)))"

definition storeDate :: "dateValue option \<Rightarrow> timestamp option \<Rightarrow> timestamp option" where
  "storeDate d old =
     (case d of None \<Rightarrow> old | Some DateNull \<Rightarrow> None | Some (DateOk t) \<Rightarrow> Some t
      | Some DateBad \<Rightarrow> old)"

definition findIssue :: "Database \<Rightarrow> ident \<Rightarrow> Issue option" where
  "findIssue db i = find (\<lambda>x. issue_id x = i) (issues db)"

definition isResolvedStatus :: "IssueStatus \<Rightarrow> bool" where
  "isResolvedStatus s \<longleftrightarrow> s = ISSUE_RESOLVED \<or> s = ISSUE_CLOSED"

text \<open>
  The value of \<open>updateData.resolvedDate\<close> after the two status rules: the auto-stamp
  when the patch's status is RESOLVED or CLOSED and the stored date is null, then the
  reset when the patch's status is any other status.
\<close>

definition resolvedDateUpdate ::
  "(string \<Rightarrow> timestamp option) \<Rightarrow> timestamp \<Rightarrow> IssuePatch \<Rightarrow> Issue \<Rightarrow> dateValue option" where
  "resolvedDateUpdate parse now p existingIssue =
     (let d0 = patchDate parse (ip_resolvedDate p);
          d1 = (if ip_status p = Some ISSUE_RESOLVED \<or> ip_status p = Some ISSUE_CLOSED
                then (if resolvedDate existingIssue = None then Some (DateOk now) else d0)
                else d0)
      in case ip_status p of
           None \<Rightarrow> d1
         | Some s \<Rightarrow> if s \<noteq> ISSUE_RESOLVED \<and> s \<noteq> ISSUE_CLOSED then Some DateNull else d1)"

definition applyIssuePatch ::
  "(string \<Rightarrow> timestamp option) \<Rightarrow> timestamp \<Rightarrow> IssuePatch \<Rightarrow> Issue \<Rightarrow> Issue" where
  "applyIssuePatch parse now p x =
     x\<lparr>issue_title := (case ip_title p of None \<Rightarrow> issue_title x | Some t \<Rightarrow> t),
       issue_status := (case ip_status p of None \<Rightarrow> issue_status x | Some s \<Rightarrow> s),
       assignedUserId := applyField (ip_assignedUserId p) (assignedUserId x),
       dueDate := storeDate (patchDate parse (ip_dueDate p)) (dueDate x),
       resolvedDate := storeDate (resolvedDateUpdate parse now p x) (resolvedDate x)\<rparr>"

text \<open>
  As in \<open>updateVisit\<close>, the handler starts with \<open>const { id } = context.params\<close> inside
  its \<open>try\<close>: without a context the catch-all answers 500 and nothing else runs.
\<close>

definition updateIssue ::
  "(string \<Rightarrow> timestamp option) \<Rightarrow> timestamp \<Rightarrow> ident option \<Rightarrow> IssuePatch \<Rightarrow> Database \<Rightarrow>
   (error + Issue) \<times> Database" where
  "updateIssue parse now context p db =
     (case context of
        None \<Rightarrow> (Inl InternalError, db)
      | Some i \<Rightarrow>
     (if ip_title p = Some [] then (Inl ValidationError, db)
      else
     (case findIssue db i of
        None \<Rightarrow> (Inl (NotFound ''Issue not found''), db)
      | Some existingIssue \<Rightarrow>
          if (case ip_assignedUserId p of Given u \<Rightarrow> findUser db u = None | _ \<Rightarrow> False)
          then (Inl (NotFound ''Assigned user not found''), db)
          else if patchDate parse (ip_dueDate p) = Some DateBad \<or>
                  resolvedDateUpdate parse now p existingIssue = Some DateBad
          then (Inl InternalError, db)
          else (Inr (applyIssuePatch parse now p existingIssue),
                db\<lparr>issues := updateFirst (\<lambda>x. issue_id x = i)
                                 (applyIssuePatch parse now p) (issues db)\<rparr>))))"

text \<open>
  The exported route, \<open>PUT = withAuth(withRole([...])(updateIssue))\<close>, called with the
  request and the context of issue \<open>i\<close>.
\<close>

definition PUT_issue ::
  "(string \<Rightarrow> timestamp option) \<Rightarrow> timestamp \<Rightarrow> ident \<Rightarrow> IssuePatch \<Rightarrow> Database \<Rightarrow>
   (error + Issue) \<times> Database" where
  "PUT_issue parse now i p db =
     withAuth (withRole (\<lambda>context. updateIssue parse now context p db)) (Some i)"

section \<open>The visit state machine\<close>

text \<open>
  The public operations on the visit table, each as its exported route runs it, and the
  state after a sequence of them run one after another. A failed request leaves whatever
  its handler had written before it returned.
\<close>

datatype operation =
  CreateVisitOp timestamp timestamp CheckInReq
  | CheckInOp timestamp timestamp CheckInReq
  | CheckOutOp timestamp CheckOutReq
  | CancelOp timestamp CancelReq
  | UpdateVisitOp timestamp ident VisitPatch

fun step :: "operation \<Rightarrow> Database \<Rightarrow> Database" where
  "step (CreateVisitOp t1 t2 rq) db = snd (createVisit t1 t2 rq db)"
| "step (CheckInOp t1 t2 rq) db = snd (checkInVisitor t1 t2 rq db)"
| "step (CheckOutOp now rq) db = snd (checkOutVisitor now rq db)"
| "step (CancelOp now rq) db = snd (cancelVisit now rq db)"
| "step (UpdateVisitOp now i p) db = snd (PUT_visit now i p db)"

definition run :: "operation list \<Rightarrow> Database \<Rightarrow> Database" where
  "run ops db = foldl (\<lambda>d op. step op d) db ops"

definition activeVisitsOf :: "Database \<Rightarrow> ident \<Rightarrow> Visit list" where
  "activeVisitsOf db x =
     filter (\<lambda>v. visit_visitorId v = x \<and> visit_status v = IN_PROGRESS) (visits db)"

definition singleActiveVisit :: "Database \<Rightarrow> bool" where
  "singleActiveVisit db \<longleftrightarrow>
     list_all (\<lambda>v. length (activeVisitsOf db (visit_visitorId v)) \<le> 1) (visits db)"

definition isTerminal :: "VisitStatus \<Rightarrow> bool" where
  "isTerminal s \<longleftrightarrow> s = COMPLETED \<or> s = CANCELLED"

definition visitCountOf :: "Database \<Rightarrow> ident \<Rightarrow> int option" where
  "visitCountOf db i = map_option visitCount (findVisitor db i)"

subsection \<open>Overlapping check-ins\<close>

text \<open>
  Every store call of a handler is awaited, and no handler opens a transaction, so the
  store calls of two requests that overlap can alternate. \<open>createVisit\<close> is cut between
  its last read and its first unconditional write: \<open>createVisitToCheck\<close> is the handler
  up to and including the active-visit check (\<open>findFirst\<close> and the 409), and
  \<open>createVisitFromCreate\<close> is the rest, from \<open>db.visit.create\<close> on, which reads
  nothing that the first part found.
\<close>

definition createVisitToCheck :: "CheckInReq \<Rightarrow> Database \<Rightarrow> (error + unit) \<times> Database" where
  "createVisitToCheck rq db =
     (case findVisitor db (ci_visitorId rq) of
        None \<Rightarrow> (Inl (NotFound ''Visitor not found''), db)
      | Some visitor \<Rightarrow>
     (case findUser db (ci_userId rq) of
        None \<Rightarrow> (Inl (NotFound ''User not found''), db)
      | Some user \<Rightarrow>
     (case (case ci_appointmentId rq of
              None \<Rightarrow> Inr db
            | Some aid \<Rightarrow>
                (case findAppointment db aid of
                   None \<Rightarrow> Inl (NotFound ''Appointment not found'')
                 | Some appointment \<Rightarrow> Inr (setAppointmentStatus aid APPT_COMPLETED db))) of
        Inl e \<Rightarrow> (Inl e, db)
      | Inr db1 \<Rightarrow>
     (case findActiveVisit db1 (ci_visitorId rq) of
        Some activeVisit \<Rightarrow> (Inl (Conflict ''Visitor already has an active visit''), db1)
      | None \<Rightarrow> (Inr (), db1)))))"

definition createVisitFromCreate ::
  "timestamp \<Rightarrow> timestamp \<Rightarrow> CheckInReq \<Rightarrow> Database \<Rightarrow> (error + Visit) \<times> Database" where
  "createVisitFromCreate t1 t2 rq db1 =
     (let visit = newVisit t1 rq db1;
          db2 = insertVisit visit db1;
          db3 = bumpVisitor (ci_visitorId rq) t2 db2
      in (Inr visit, db3))"

section \<open>Example data\<close>

text \<open>
  A small store used to run the handlers on concrete requests: one visitor, two staff
  users. \<open>exDbBooked\<close> is the store after one appointment has been scheduled for staff
  user 10 on 2024-01-10 from 10:00 to 10:30 (UTC), \<open>exDbActive\<close> after the visitor has
  then been checked in, \<open>exDbDone\<close> after that visit has been checked out.
\<close>

definition exVisitor :: Visitor where
  "exVisitor = \<lparr>visitor_id = 1, visitCount = 0, lastVisit = None, isActive = True\<rparr>"

definition exDb :: Database where
  "exDb = \<lparr>visitors = [exVisitor], users = [10, 11], appointments = [], visits = [],
           issues = [], nextId = 100\<rparr>"

definition exCheckIn :: "ident \<Rightarrow> ident option \<Rightarrow> CheckInReq" where
  "exCheckIn staff appt =
     \<lparr>ci_visitorId = 1, ci_userId = staff, ci_appointmentId = appt, ci_purpose = None,
      ci_notes = None\<rparr>"

definition exCheckOut :: "ident \<Rightarrow> CheckOutReq" where
  "exCheckOut i = \<lparr>co_visitId = i, co_notes = None, co_satisfaction = Given 4\<rparr>"

definition exSchedule :: "timestamp \<Rightarrow> CreateAppointmentReq" where
  "exSchedule start =
     \<lparr>ap_title = ''Meeting'', ap_visitorId = 1, ap_userId = 10,
      ap_scheduledDate = 1704844800000, ap_startTime = start, ap_duration = Some 30,
      ap_priority = None\<rparr>"

definition exAppointment :: Appointment where
  "exAppointment =
     \<lparr>appt_id = 100, appt_title = ''Meeting'', appt_visitorId = 1, appt_userId = 10,
      scheduledDate = 1704844800000, startTime = 1704880800000, endTime = 1704882600000,
      duration = 30, appt_status = APPT_PENDING, priority = NORMAL\<rparr>"

definition exVisit :: Visit where
  "exVisit =
     \<lparr>visit_id = 101, visit_visitorId = 1, visit_userId = 10, appointmentId = None,
      checkInTime = 1704880900000, checkOutTime = None, visit_status = IN_PROGRESS,
      visit_purpose = None, visit_notes = None, satisfaction = None\<rparr>"

definition exDbBooked :: Database where
  "exDbBooked = snd (createAppointment (exSchedule 1704880800000) exDb)"

definition exDbActive :: Database where
  "exDbActive = snd (createVisit 1704880900000 1704880900001 (exCheckIn 10 None) exDbBooked)"

definition exDbDone :: Database where
  "exDbDone = snd (checkOutVisitor 1704882000000 (exCheckOut 101) exDbActive)"




definition visitShape :: "Database \<Rightarrow> (ident \<times> ident \<times> VisitStatus) list" where
  "visitShape db = map (\<lambda>v. (visit_id v, visit_visitorId v, visit_status v)) (visits db)"

definition exDbRaced :: Database where
  "exDbRaced =
     snd (createVisitFromCreate 3000 3001 (exCheckIn 11 None)
       (snd (createVisitFromCreate 1000 1001 (exCheckIn 10 None)
         (snd (createVisitToCheck (exCheckIn 11 None)
           (snd (createVisitToCheck (exCheckIn 10 None) exDb)))))))"

text \<open>
  An issue store, a patch that sets only the status, and a stand-in for the \<open>Date\<close>
  constructor that knows one date string.
\<close>

definition exParse :: "string \<Rightarrow> timestamp option" where
  "exParse s = (if s = ''2024-01-01'' then Some 1704067200000 else None)"

definition exIssue :: Issue where
  "exIssue = \<lparr>issue_id = 200, issue_title = ''Road repair'', issue_status = ISSUE_OPEN,
               assignedUserId = None, dueDate = None, resolvedDate = None\<rparr>"

definition exIssueDb :: Database where
  "exIssueDb = exDb\<lparr>issues := [exIssue]\<rparr>"

definition exSetStatus :: "IssueStatus \<Rightarrow> IssuePatch" where
  "exSetStatus s = \<lparr>ip_title = None, ip_status = Some s, ip_assignedUserId = Absent,
                     ip_dueDate = Absent, ip_resolvedDate = Absent\<rparr>"

text \<open>
  A queue: four IN_PROGRESS visits (one linked to a LOW appointment, one to an URGENT
  appointment, two walk-ins) and one COMPLETED visit.
\<close>

definition exApptLow :: Appointment where
  "exApptLow = exAppointment\<lparr>appt_id := 300, priority := LOW\<rparr>"

definition exApptUrgent :: Appointment where
  "exApptUrgent = exAppointment\<lparr>appt_id := 301, priority := URGENT\<rparr>"

definition exVisitA :: Visit where
  "exVisitA = exVisit\<lparr>visit_id := 400, appointmentId := Some 300, checkInTime := 1000\<rparr>"

definition exVisitB :: Visit where
  "exVisitB = exVisit\<lparr>visit_id := 401, visit_visitorId := 2, checkInTime := 2000\<rparr>"

definition exVisitC :: Visit where
  "exVisitC = exVisit\<lparr>visit_id := 402, visit_visitorId := 3, appointmentId := Some 301,
                      checkInTime := 3000\<rparr>"

definition exVisitD :: Visit where
  "exVisitD = exVisit\<lparr>visit_id := 403, visit_visitorId := 4, checkInTime := 1500\<rparr>"

definition exVisitE :: Visit where
  "exVisitE = exVisit\<lparr>visit_id := 404, visit_visitorId := 5, checkInTime := 500,
                      visit_status := COMPLETED\<rparr>"

definition exQueueDb :: Database where
  "exQueueDb = exDb\<lparr>appointments := [exApptLow, exApptUrgent],
                     visits := [exVisitA, exVisitB, exVisitC, exVisitD, exVisitE]\<rparr>"

definition exRow :: "Visit \<Rightarrow> Appointment option \<Rightarrow> QueueRow" where
  "exRow v a = \<lparr>qr_visit = v, qr_appointment = a\<rparr>"

text \<open>
  A store with one visit completed on 2024-01-10 and linked to the 10:00 appointment, and
  a store whose only appointment is cancelled; \<open>exSlot\<close> is the 10:00 to 10:30 slot of that day.
\<close>

definition exStatsDb :: Database where
  "exStatsDb = exDb\<lparr>
     appointments := [exAppointment],
     visits := [exVisit\<lparr>appointmentId := Some 100, checkInTime := 1704881400000,
                        checkOutTime := Some 1704883200000, visit_status := COMPLETED\<rparr>]\<rparr>"

definition exCalendarDb :: Database where
  "exCalendarDb = exDb\<lparr>appointments := [exAppointment\<lparr>appt_status := APPT_CANCELLED\<rparr>]\<rparr>"

definition exSlot :: "timestamp \<times> timestamp" where
  "exSlot = (1704880800000, 1704882600000)"

section \<open>Facts about the store operations\<close>

lemma find_updateFirst_same:
  "find p xs = Some x \<Longrightarrow> p (f x) \<Longrightarrow> find p (updateFirst p f xs) = Some (f x)"
  by (induction xs) (auto split: if_splits)

lemma length_updateFirst [simp]: "length (updateFirst p f xs) = length xs"
  by (induction xs) auto

lemma visits_setAppointmentStatus [simp]:
  "visits (setAppointmentStatus i s db) = visits db"
  by (simp add: setAppointmentStatus_def)

lemma visitors_setAppointmentStatus [simp]:
  "visitors (setAppointmentStatus i s db) = visitors db"
  by (simp add: setAppointmentStatus_def)

lemma findActiveVisit_setAppointmentStatus [simp]:
  "findActiveVisit (setAppointmentStatus i s db) x = findActiveVisit db x"
  by (simp add: findActiveVisit_def)

lemma findAppointment_setAppointmentStatus:
  "findAppointment db i = Some a \<Longrightarrow>
   findAppointment (setAppointmentStatus i s db) i = Some (a\<lparr>appt_status := s\<rparr>)"
proof -
  assume f: "findAppointment db i = Some a"
  then have "appt_id a = i"
    by (auto simp: findAppointment_def find_Some_iff)
  with f show ?thesis
    by (simp add: findAppointment_def setAppointmentStatus_def find_updateFirst_same)
qed

lemma findVisit_id: "findVisit db i = Some v \<Longrightarrow> visit_id v = i"
  by (auto simp: findVisit_def find_Some_iff)

lemma visits_closeLinkedAppointment [simp]:
  "visits (snd (closeLinkedAppointment v s u db)) = visits db"
  by (simp add: closeLinkedAppointment_def split: option.splits)

lemma findVisit_closeLinkedAppointment [simp]:
  "findVisit (snd (closeLinkedAppointment v s u db)) i = findVisit db i"
  by (simp add: findVisit_def)

lemma findVisit_after_checkOut:
  assumes "validSatisfaction (co_satisfaction rq)"
    and "findVisit db (co_visitId rq) = Some v"
    and "visit_status v = IN_PROGRESS"
  shows "findVisit (snd (checkOutVisitor now rq db)) (co_visitId rq) =
           Some (v\<lparr>visit_status := COMPLETED, checkOutTime := Some now,
                   visit_notes := strOr (co_notes rq) (visit_notes v),
                   satisfaction := applyField (co_satisfaction rq) (satisfaction v)\<rparr>)"
proof -
  have "visit_id v = co_visitId rq" using assms(2) by (rule findVisit_id)
  then show ?thesis
    using assms
    by (simp add: checkOutVisitor_def Let_def)
       (simp add: findVisit_def updateVisitRow_def find_updateFirst_same)
qed

subsection \<open>The example stores, evaluated\<close>

lemma exDbBooked_value:
  "exDbBooked = exDb\<lparr>appointments := [exAppointment], nextId := 101\<rparr>"
  by (simp add: exDbBooked_def exSchedule_def exDb_def exVisitor_def exAppointment_def
      createAppointment_def findVisitor_def findUser_def findConflicts_def
      validCreateAppointment_def effectiveDuration_def insertAppointment_def
      newAppointment_def Let_def)

lemma exDbActive_value:
  "exDbActive = exDbBooked\<lparr>
      visitors := [exVisitor\<lparr>visitCount := 1, lastVisit := Some 1704880900001\<rparr>],
      visits := [exVisit], nextId := 102\<rparr>"
  unfolding exDbActive_def exDbBooked_value
  by (simp add: exDb_def exVisitor_def exCheckIn_def exVisit_def createVisit_def
      findActiveVisit_def findVisitor_def findUser_def newVisit_def insertVisit_def
      bumpVisitor_def Let_def)

lemma exDbDone_value:
  "exDbDone = exDbActive\<lparr>visits :=
      [exVisit\<lparr>visit_status := COMPLETED, checkOutTime := Some 1704882000000,
               satisfaction := Some 4\<rparr>]\<rparr>"
  unfolding exDbDone_def exDbActive_value exDbBooked_value
  by (simp add: exDb_def exVisit_def exCheckOut_def checkOutVisitor_def validSatisfaction_def
      findVisit_def updateVisitRow_def closeLinkedAppointment_def strOr_def applyField_def
      Let_def)

lemmas ex_values = exDbDone_value exDbActive_value exDbBooked_value exDb_def exVisitor_def
  exVisit_def exAppointment_def exCheckIn_def exCheckOut_def exSchedule_def

section \<open>Check-in\<close>

text \<open>
  Claim C4. When the visitor already has a visit with status IN_PROGRESS, a further
  check-in for that visitor fails through both entry points: the response is an error,
  the visit table is unchanged (no second row) and the visitor table is unchanged (so
  \<open>visitCount\<close> is). The error is the 409 conflict whenever the request's references
  resolve: the visitor and the staff user exist and, on POST /visits, so does the
  appointment when one is named. (The queue entry point checks the appointment only
  after the conflict check.)
\<close>

theorem second_checkIn_conflict:
  "findActiveVisit db (ci_visitorId rq) = Some av \<longrightarrow>
     (\<exists>e. fst (createVisit t1 t2 rq db) = Inl e) \<and>
     visits (snd (createVisit t1 t2 rq db)) = visits db \<and>
     visitors (snd (createVisit t1 t2 rq db)) = visitors db \<and>
     (\<exists>e. fst (checkInVisitor t1 t2 rq db) = Inl e) \<and>
     snd (checkInVisitor t1 t2 rq db) = db \<and>
     (findVisitor db (ci_visitorId rq) \<noteq> None \<and> findUser db (ci_userId rq) \<noteq> None \<longrightarrow>
        fst (checkInVisitor t1 t2 rq db) = Inl (Conflict ''Visitor already has an active visit'') \<and>
        ((\<forall>aid. ci_appointmentId rq = Some aid \<longrightarrow> findAppointment db aid \<noteq> None) \<longrightarrow>
           fst (createVisit t1 t2 rq db) = Inl (Conflict ''Visitor already has an active visit''))) \<and>
     httpStatus (Conflict ''Visitor already has an active visit'') = 409"
  by (auto simp: createVisit_def checkInVisitor_def split: option.splits sum.splits)

theorem second_checkIn_conflict_witness:
  "findActiveVisit exDbActive 1 = Some exVisit \<and>
   findVisitor exDbActive 1 \<noteq> None \<and> findUser exDbActive 11 \<noteq> None \<and>
   fst (createVisit 5 6 (exCheckIn 11 None) exDbActive) =
     Inl (Conflict ''Visitor already has an active visit'') \<and>
   fst (checkInVisitor 5 6 (exCheckIn 11 None) exDbActive) =
     Inl (Conflict ''Visitor already has an active visit'') \<and>
   visits (snd (createVisit 5 6 (exCheckIn 11 None) exDbActive)) = [exVisit] \<and>
   visitCountOf (snd (createVisit 5 6 (exCheckIn 11 None) exDbActive)) 1 = Some 1 \<and>
   visitCountOf exDbActive 1 = Some 1"
  using second_checkIn_conflict [of exDbActive "exCheckIn 11 None" exVisit 5 6]
  by (simp add: ex_values visitCountOf_def findVisitor_def findUser_def findActiveVisit_def)

text \<open>
  Claim C10. On POST /visits with an appointment id, when visitor, staff user and
  appointment exist and the visitor already has an IN_PROGRESS visit, the response is the
  409 conflict and no visit row is written, but the returned store is the one in which
  the appointment has been set to COMPLETED: it differs from the store before the request
  unless the appointment was COMPLETED already. The queue check-in on the same request
  and store answers 409 and returns the store as it was.
\<close>

theorem checkIn_order_differs:
  "findVisitor db (ci_visitorId rq) \<noteq> None \<and> findUser db (ci_userId rq) \<noteq> None \<and>
   ci_appointmentId rq = Some aid \<and> findAppointment db aid = Some a \<and>
   findActiveVisit db (ci_visitorId rq) \<noteq> None \<longrightarrow>
     createVisit t1 t2 rq db =
       (Inl (Conflict ''Visitor already has an active visit''),
        setAppointmentStatus aid APPT_COMPLETED db) \<and>
     visits (snd (createVisit t1 t2 rq db)) = visits db \<and>
     findAppointment (snd (createVisit t1 t2 rq db)) aid = Some (a\<lparr>appt_status := APPT_COMPLETED\<rparr>) \<and>
     (appt_status a \<noteq> APPT_COMPLETED \<longrightarrow> snd (createVisit t1 t2 rq db) \<noteq> db) \<and>
     checkInVisitor t1 t2 rq db = (Inl (Conflict ''Visitor already has an active visit''), db) \<and>
     httpStatus (Conflict ''Visitor already has an active visit'') = 409"
proof (intro impI)
  assume h: "findVisitor db (ci_visitorId rq) \<noteq> None \<and> findUser db (ci_userId rq) \<noteq> None \<and>
   ci_appointmentId rq = Some aid \<and> findAppointment db aid = Some a \<and>
   findActiveVisit db (ci_visitorId rq) \<noteq> None"
  have c: "createVisit t1 t2 rq db =
       (Inl (Conflict ''Visitor already has an active visit''),
        setAppointmentStatus aid APPT_COMPLETED db)"
    using h by (auto simp: createVisit_def split: option.splits)
  have f: "findAppointment (setAppointmentStatus aid APPT_COMPLETED db) aid =
        Some (a\<lparr>appt_status := APPT_COMPLETED\<rparr>)"
    using h by (simp add: findAppointment_setAppointmentStatus)
  have d: "appt_status a \<noteq> APPT_COMPLETED \<longrightarrow> setAppointmentStatus aid APPT_COMPLETED db \<noteq> db"
  proof (intro impI notI)
    assume ns: "appt_status a \<noteq> APPT_COMPLETED"
      and eq: "setAppointmentStatus aid APPT_COMPLETED db = db"
    from f eq h have "a\<lparr>appt_status := APPT_COMPLETED\<rparr> = a" by simp
    then have "appt_status (a\<lparr>appt_status := APPT_COMPLETED\<rparr>) = appt_status a" by simp
    with ns show False by simp
  qed
  have q: "checkInVisitor t1 t2 rq db = (Inl (Conflict ''Visitor already has an active visit''), db)"
    using h by (auto simp: checkInVisitor_def split: option.splits)
  show "createVisit t1 t2 rq db =
       (Inl (Conflict ''Visitor already has an active visit''),
        setAppointmentStatus aid APPT_COMPLETED db) \<and>
     visits (snd (createVisit t1 t2 rq db)) = visits db \<and>
     findAppointment (snd (createVisit t1 t2 rq db)) aid = Some (a\<lparr>appt_status := APPT_COMPLETED\<rparr>) \<and>
     (appt_status a \<noteq> APPT_COMPLETED \<longrightarrow> snd (createVisit t1 t2 rq db) \<noteq> db) \<and>
     checkInVisitor t1 t2 rq db = (Inl (Conflict ''Visitor already has an active visit''), db) \<and>
     httpStatus (Conflict ''Visitor already has an active visit'') = 409"
    using c f d q by simp
qed

theorem checkIn_order_differs_witness:
  "findVisitor exDbActive 1 \<noteq> None \<and> findUser exDbActive 11 \<noteq> None \<and>
   findActiveVisit exDbActive 1 \<noteq> None \<and>
   findAppointment exDbActive 100 = Some exAppointment \<and>
   appt_status exAppointment = APPT_PENDING \<and>
   fst (createVisit 5 6 (exCheckIn 11 (Some 100)) exDbActive) =
      Inl (Conflict ''Visitor already has an active visit'') \<and>
   appointments (snd (createVisit 5 6 (exCheckIn 11 (Some 100)) exDbActive)) =
      [exAppointment\<lparr>appt_status := APPT_COMPLETED\<rparr>] \<and>
   visits (snd (createVisit 5 6 (exCheckIn 11 (Some 100)) exDbActive)) = visits exDbActive \<and>
   checkInVisitor 5 6 (exCheckIn 11 (Some 100)) exDbActive =
      (Inl (Conflict ''Visitor already has an active visit''), exDbActive)"
  using checkIn_order_differs [of exDbActive "exCheckIn 11 (Some 100)" 100 exAppointment 5 6]
  by (simp add: ex_values findVisitor_def findUser_def findActiveVisit_def findAppointment_def
      setAppointmentStatus_def)

section \<open>Check-out\<close>

text \<open>
  Claim C5. For a check-out request that passes the schema: when no visit has the id the
  response is NotFound (404) and the store is unchanged; when the visit's status is not
  IN_PROGRESS the response is InvalidState (400) and the store is unchanged; and when the
  visit is IN_PROGRESS, after the first call the visit is COMPLETED with the check-out
  time of that call, and a second check-out of the same visit answers InvalidState and
  returns the store unchanged, so the check-out time stays the one of the first call.
\<close>

theorem checkOut_guard:
  "validSatisfaction (co_satisfaction rq) \<and> validSatisfaction (co_satisfaction rq') \<and>
   co_visitId rq' = co_visitId rq \<longrightarrow>
   (findVisit db (co_visitId rq) = None \<longrightarrow>
      checkOutVisitor now rq db = (Inl (NotFound ''Visit not found''), db)) \<and>
   (\<forall>v. findVisit db (co_visitId rq) = Some v \<and> visit_status v \<noteq> IN_PROGRESS \<longrightarrow>
      checkOutVisitor now rq db = (Inl (InvalidState ''Visit is not in progress''), db)) \<and>
   (\<forall>v. findVisit db (co_visitId rq) = Some v \<and> visit_status v = IN_PROGRESS \<longrightarrow>
      (let db1 = snd (checkOutVisitor now rq db) in
         (\<exists>v1. findVisit db1 (co_visitId rq) = Some v1 \<and> visit_status v1 = COMPLETED \<and>
               checkOutTime v1 = Some now) \<and>
         checkOutVisitor now' rq' db1 = (Inl (InvalidState ''Visit is not in progress''), db1))) \<and>
   httpStatus (NotFound ''Visit not found'') = 404 \<and>
   httpStatus (InvalidState ''Visit is not in progress'') = 400"
proof (intro impI conjI allI)
  assume v: "validSatisfaction (co_satisfaction rq) \<and> validSatisfaction (co_satisfaction rq') \<and>
   co_visitId rq' = co_visitId rq"
  { assume "findVisit db (co_visitId rq) = None"
    then show "checkOutVisitor now rq db = (Inl (NotFound ''Visit not found''), db)"
      using v by (simp add: checkOutVisitor_def) }
  { fix x assume "findVisit db (co_visitId rq) = Some x \<and> visit_status x \<noteq> IN_PROGRESS"
    then show "checkOutVisitor now rq db = (Inl (InvalidState ''Visit is not in progress''), db)"
      using v by (simp add: checkOutVisitor_def) }
  { fix x assume a: "findVisit db (co_visitId rq) = Some x \<and> visit_status x = IN_PROGRESS"
    have f: "findVisit (snd (checkOutVisitor now rq db)) (co_visitId rq) =
           Some (x\<lparr>visit_status := COMPLETED, checkOutTime := Some now,
                   visit_notes := strOr (co_notes rq) (visit_notes x),
                   satisfaction := applyField (co_satisfaction rq) (satisfaction x)\<rparr>)"
      using findVisit_after_checkOut[of rq db x now] v a by simp
    show "let db1 = snd (checkOutVisitor now rq db) in
         (\<exists>v1. findVisit db1 (co_visitId rq) = Some v1 \<and> visit_status v1 = COMPLETED \<and>
               checkOutTime v1 = Some now) \<and>
         checkOutVisitor now' rq' db1 = (Inl (InvalidState ''Visit is not in progress''), db1)"
      unfolding Let_def
    proof
      show "\<exists>v1. findVisit (snd (checkOutVisitor now rq db)) (co_visitId rq) = Some v1 \<and>
              visit_status v1 = COMPLETED \<and> checkOutTime v1 = Some now"
        using f by simp
      show "checkOutVisitor now' rq' (snd (checkOutVisitor now rq db)) =
              (Inl (InvalidState ''Visit is not in progress''), snd (checkOutVisitor now rq db))"
        using f v by (simp add: checkOutVisitor_def[of now' rq'])
    qed }
qed simp_all

theorem checkOut_guard_witness:
  "validSatisfaction (co_satisfaction (exCheckOut 101)) \<and>
   findVisit exDbActive 999 = None \<and>
   checkOutVisitor 7 (exCheckOut 999) exDbActive = (Inl (NotFound ''Visit not found''), exDbActive) \<and>
   findVisit exDbActive 101 = Some exVisit \<and> visit_status exVisit = IN_PROGRESS \<and>
   snd (checkOutVisitor 1704882000000 (exCheckOut 101) exDbActive) = exDbDone \<and>
   checkOutVisitor 1704882999999 (exCheckOut 101) exDbDone =
     (Inl (InvalidState ''Visit is not in progress''), exDbDone) \<and>
   map checkOutTime (visits exDbDone) = [Some 1704882000000]"
  using checkOut_guard [of "exCheckOut 999" "exCheckOut 999" exDbActive 7 7]
    checkOut_guard [of "exCheckOut 101" "exCheckOut 101" exDbActive 1704882000000 1704882999999]
  by (simp add: exDbDone_def [symmetric])
     (simp add: ex_values findVisit_def validSatisfaction_def)

section \<open>Scheduling\<close>

lemma valid_interval: "validCreateAppointment rq \<Longrightarrow>
   ap_startTime rq < ap_startTime rq + effectiveDuration rq * 60000"
  by (simp add: validCreateAppointment_def)

lemma findConflicts_nonempty:
  "length (findConflicts db uid date s e) > 0 \<longleftrightarrow>
     (\<exists>a\<in>set (appointments db). blocksSchedule uid date s e a)"
  by (auto simp: findConflicts_def filter_empty_conv)

text \<open>
  Claim C1. For a schedule request that passes the schema, with new interval from
  \<open>s\<close> to \<open>e = s + duration\<close>: if some appointment of the same staff user on the same
  scheduled date, with status neither CANCELLED nor NO_SHOW, meets the three-way overlap
  test, the response is the 409 conflict and the store is returned unchanged (no
  appointment row is written). If every such appointment is a proper interval that ends
  no later than \<open>s\<close> or starts no earlier than \<open>e\<close> (exact adjacency included) and the
  visitor and staff user exist, the request succeeds and appends the new appointment.
  For proper intervals the three-way test is the overlap of half-open intervals, and an
  appointment ending exactly at \<open>s\<close> or starting exactly at \<open>e\<close> does not meet it.
\<close>

theorem createAppointment_conflict_rule:
  "validCreateAppointment rq \<longrightarrow>
   (let s = ap_startTime rq; e = ap_startTime rq + effectiveDuration rq * 60000 in
      ((\<exists>a\<in>set (appointments db).
           appt_userId a = ap_userId rq \<and> scheduledDate a = ap_scheduledDate rq \<and>
           appt_status a \<noteq> APPT_CANCELLED \<and> appt_status a \<noteq> APPT_NO_SHOW \<and>
           threeWayOverlap s e a) \<longrightarrow>
         createAppointment rq db =
           (Inl (Conflict ''Scheduling conflict detected. Please choose a different time.''), db)) \<and>
      ((\<forall>a\<in>set (appointments db).
           appt_userId a = ap_userId rq \<and> scheduledDate a = ap_scheduledDate rq \<and>
           appt_status a \<noteq> APPT_CANCELLED \<and> appt_status a \<noteq> APPT_NO_SHOW \<longrightarrow>
           startTime a < endTime a \<and> (endTime a \<le> s \<or> e \<le> startTime a)) \<and>
        findVisitor db (ap_visitorId rq) \<noteq> None \<and> findUser db (ap_userId rq) \<noteq> None \<longrightarrow>
         createAppointment rq db =
           (Inr (newAppointment rq db), insertAppointment (newAppointment rq db) db)) \<and>
      (\<forall>a. startTime a < endTime a \<longrightarrow>
           (threeWayOverlap s e a \<longleftrightarrow> spec_halfOpenOverlap s e a) \<and>
           (endTime a = s \<or> startTime a = e \<longrightarrow> \<not> threeWayOverlap s e a))) \<and>
   httpStatus (Conflict ''Scheduling conflict detected. Please choose a different time.'') = 409"
proof (intro impI)
  assume v: "validCreateAppointment rq"
  define s where "s = ap_startTime rq"
  define e where "e = ap_startTime rq + effectiveDuration rq * 60000"
  have se: "s < e" using valid_interval[OF v] by (simp add: s_def e_def)
  have c1: "(\<exists>a\<in>set (appointments db).
           appt_userId a = ap_userId rq \<and> scheduledDate a = ap_scheduledDate rq \<and>
           appt_status a \<noteq> APPT_CANCELLED \<and> appt_status a \<noteq> APPT_NO_SHOW \<and>
           threeWayOverlap s e a) \<longrightarrow>
         createAppointment rq db =
           (Inl (Conflict ''Scheduling conflict detected. Please choose a different time.''), db)"
  proof
    assume "\<exists>a\<in>set (appointments db).
           appt_userId a = ap_userId rq \<and> scheduledDate a = ap_scheduledDate rq \<and>
           appt_status a \<noteq> APPT_CANCELLED \<and> appt_status a \<noteq> APPT_NO_SHOW \<and>
           threeWayOverlap s e a"
    then have "\<exists>a\<in>set (appointments db). blocksSchedule (ap_userId rq) (ap_scheduledDate rq) s e a"
      by (auto simp: blocksSchedule_def)
    then have "length (findConflicts db (ap_userId rq) (ap_scheduledDate rq) s e) > 0"
      by (simp add: findConflicts_nonempty del: length_greater_0_conv)
    then show "createAppointment rq db =
           (Inl (Conflict ''Scheduling conflict detected. Please choose a different time.''), db)"
      using v by (simp add: createAppointment_def Let_def s_def e_def)
  qed
  have c2: "(\<forall>a\<in>set (appointments db).
           appt_userId a = ap_userId rq \<and> scheduledDate a = ap_scheduledDate rq \<and>
           appt_status a \<noteq> APPT_CANCELLED \<and> appt_status a \<noteq> APPT_NO_SHOW \<longrightarrow>
           startTime a < endTime a \<and> (endTime a \<le> s \<or> e \<le> startTime a)) \<and>
        findVisitor db (ap_visitorId rq) \<noteq> None \<and> findUser db (ap_userId rq) \<noteq> None \<longrightarrow>
         createAppointment rq db =
           (Inr (newAppointment rq db), insertAppointment (newAppointment rq db) db)"
  proof
    assume h: "(\<forall>a\<in>set (appointments db).
           appt_userId a = ap_userId rq \<and> scheduledDate a = ap_scheduledDate rq \<and>
           appt_status a \<noteq> APPT_CANCELLED \<and> appt_status a \<noteq> APPT_NO_SHOW \<longrightarrow>
           startTime a < endTime a \<and> (endTime a \<le> s \<or> e \<le> startTime a)) \<and>
        findVisitor db (ap_visitorId rq) \<noteq> None \<and> findUser db (ap_userId rq) \<noteq> None"
    have "\<not> (\<exists>a\<in>set (appointments db). blocksSchedule (ap_userId rq) (ap_scheduledDate rq) s e a)"
    proof
      assume "\<exists>a\<in>set (appointments db). blocksSchedule (ap_userId rq) (ap_scheduledDate rq) s e a"
      then obtain a where a: "a \<in> set (appointments db)"
        and b: "blocksSchedule (ap_userId rq) (ap_scheduledDate rq) s e a" by blast
      from a b h have w: "startTime a < endTime a" and d: "endTime a \<le> s \<or> e \<le> startTime a"
        by (auto simp: blocksSchedule_def)
      from b have "threeWayOverlap s e a" by (simp add: blocksSchedule_def)
      with w d se show False by (auto simp: threeWayOverlap_def)
    qed
    then have "\<not> length (findConflicts db (ap_userId rq) (ap_scheduledDate rq) s e) > 0"
      by (simp add: findConflicts_nonempty del: length_greater_0_conv)
    then show "createAppointment rq db =
           (Inr (newAppointment rq db), insertAppointment (newAppointment rq db) db)"
      using v h by (auto simp: createAppointment_def Let_def s_def e_def)
  qed
  have c3: "\<forall>a. startTime a < endTime a \<longrightarrow>
           (threeWayOverlap s e a \<longleftrightarrow> spec_halfOpenOverlap s e a) \<and>
           (endTime a = s \<or> startTime a = e \<longrightarrow> \<not> threeWayOverlap s e a)"
    using se by (auto simp: threeWayOverlap_def spec_halfOpenOverlap_def)
  show "(let s = ap_startTime rq; e = ap_startTime rq + effectiveDuration rq * 60000 in
      ((\<exists>a\<in>set (appointments db).
           appt_userId a = ap_userId rq \<and> scheduledDate a = ap_scheduledDate rq \<and>
           appt_status a \<noteq> APPT_CANCELLED \<and> appt_status a \<noteq> APPT_NO_SHOW \<and>
           threeWayOverlap s e a) \<longrightarrow>
         createAppointment rq db =
           (Inl (Conflict ''Scheduling conflict detected. Please choose a different time.''), db)) \<and>
      ((\<forall>a\<in>set (appointments db).
           appt_userId a = ap_userId rq \<and> scheduledDate a = ap_scheduledDate rq \<and>
           appt_status a \<noteq> APPT_CANCELLED \<and> appt_status a \<noteq> APPT_NO_SHOW \<longrightarrow>
           startTime a < endTime a \<and> (endTime a \<le> s \<or> e \<le> startTime a)) \<and>
        findVisitor db (ap_visitorId rq) \<noteq> None \<and> findUser db (ap_userId rq) \<noteq> None \<longrightarrow>
         createAppointment rq db =
           (Inr (newAppointment rq db), insertAppointment (newAppointment rq db) db)) \<and>
      (\<forall>a. startTime a < endTime a \<longrightarrow>
           (threeWayOverlap s e a \<longleftrightarrow> spec_halfOpenOverlap s e a) \<and>
           (endTime a = s \<or> startTime a = e \<longrightarrow> \<not> threeWayOverlap s e a))) \<and>
   httpStatus (Conflict ''Scheduling conflict detected. Please choose a different time.'') = 409"
    unfolding Let_def
    by (intro conjI c1[unfolded s_def e_def] c2[unfolded s_def e_def] c3[unfolded s_def e_def]) simp
qed

theorem createAppointment_conflict_rule_witness:
  "validCreateAppointment (exSchedule 1704881700000) \<and>
   validCreateAppointment (exSchedule 1704882600000) \<and>
   createAppointment (exSchedule 1704880800000) exDb = (Inr exAppointment, exDbBooked) \<and>
   createAppointment (exSchedule 1704881700000) exDbBooked =
     (Inl (Conflict ''Scheduling conflict detected. Please choose a different time.''), exDbBooked) \<and>
   fst (createAppointment (exSchedule 1704882600000) exDbBooked) =
     Inr (exAppointment\<lparr>appt_id := 101, startTime := 1704882600000, endTime := 1704884400000\<rparr>) \<and>
   appointments (snd (createAppointment (exSchedule 1704882600000) exDbBooked)) =
     [exAppointment,
      exAppointment\<lparr>appt_id := 101, startTime := 1704882600000, endTime := 1704884400000\<rparr>]"
  using createAppointment_conflict_rule [of "exSchedule 1704880800000" exDb]
    createAppointment_conflict_rule [of "exSchedule 1704881700000" exDbBooked]
    createAppointment_conflict_rule [of "exSchedule 1704882600000" exDbBooked]
  by (simp add: ex_values validCreateAppointment_def effectiveDuration_def threeWayOverlap_def
      findVisitor_def findUser_def newAppointment_def insertAppointment_def Let_def)

section \<open>The visit state machine: invariant and transitions\<close>

lemma visits_bumpVisitor [simp]: "visits (bumpVisitor i t db) = visits db"
  by (simp add: bumpVisitor_def)

lemma visits_insertVisit [simp]: "visits (insertVisit v db) = visits db @ [v]"
  by (simp add: insertVisit_def)

lemma newVisit_fields [simp]:
  "visit_status (newVisit t rq db) = IN_PROGRESS"
  "visit_visitorId (newVisit t rq db) = ci_visitorId rq"
  by (simp_all add: newVisit_def)

lemma visits_createVisit:
  "visits (snd (createVisit t1 t2 rq db)) = visits db \<or>
   (\<exists>nv. visit_status nv = IN_PROGRESS \<and> visit_visitorId nv = ci_visitorId rq \<and>
         findActiveVisit db (ci_visitorId rq) = None \<and>
         visits (snd (createVisit t1 t2 rq db)) = visits db @ [nv])"
  by (auto simp: createVisit_def Let_def split: option.splits sum.splits)

lemma visits_checkInVisitor:
  "visits (snd (checkInVisitor t1 t2 rq db)) = visits db \<or>
   (\<exists>nv. visit_status nv = IN_PROGRESS \<and> visit_visitorId nv = ci_visitorId rq \<and>
         findActiveVisit db (ci_visitorId rq) = None \<and>
         visits (snd (checkInVisitor t1 t2 rq db)) = visits db @ [nv])"
  by (auto simp: checkInVisitor_def Let_def split: option.splits sum.splits)

lemma visits_checkOutVisitor:
  "visits (snd (checkOutVisitor now rq db)) = visits db \<or>
   (\<exists>v u. findVisit db (co_visitId rq) = Some v \<and> visit_status v = IN_PROGRESS \<and>
          isTerminal (visit_status u) \<and>
          visits (snd (checkOutVisitor now rq db)) =
            updateFirst (\<lambda>x. visit_id x = co_visitId rq) (\<lambda>x. u) (visits db))"
proof (cases "validSatisfaction (co_satisfaction rq) \<and>
    (\<exists>v. findVisit db (co_visitId rq) = Some v \<and> visit_status v = IN_PROGRESS)")
  case True
  then obtain v where v: "findVisit db (co_visitId rq) = Some v" "visit_status v = IN_PROGRESS"
    by blast
  let ?u = "v\<lparr>visit_status := COMPLETED, checkOutTime := Some now,
               visit_notes := strOr (co_notes rq) (visit_notes v),
               satisfaction := applyField (co_satisfaction rq) (satisfaction v)\<rparr>"
  have "visits (snd (checkOutVisitor now rq db)) =
          updateFirst (\<lambda>x. visit_id x = co_visitId rq) (\<lambda>x. ?u) (visits db)"
    using True v by (simp add: checkOutVisitor_def Let_def updateVisitRow_def)
  moreover have "isTerminal (visit_status ?u)" by (simp add: isTerminal_def)
  ultimately show ?thesis using v by blast
next
  case False
  then have "visits (snd (checkOutVisitor now rq db)) = visits db"
    by (auto simp: checkOutVisitor_def split: option.splits)
  then show ?thesis by simp
qed

lemma visits_cancelVisit:
  "visits (snd (cancelVisit now rq db)) = visits db \<or>
   (\<exists>v u. findVisit db (ca_visitId rq) = Some v \<and> visit_status v = IN_PROGRESS \<and>
          isTerminal (visit_status u) \<and>
          visits (snd (cancelVisit now rq db)) =
            updateFirst (\<lambda>x. visit_id x = ca_visitId rq) (\<lambda>x. u) (visits db))"
proof (cases "\<exists>v. findVisit db (ca_visitId rq) = Some v \<and> visit_status v = IN_PROGRESS")
  case True
  then obtain v where v: "findVisit db (ca_visitId rq) = Some v" "visit_status v = IN_PROGRESS"
    by blast
  let ?u = "v\<lparr>visit_status := CANCELLED, checkOutTime := Some now,
               visit_notes := strOr (ca_notes rq) (visit_notes v)\<rparr>"
  have "visits (snd (cancelVisit now rq db)) =
          updateFirst (\<lambda>x. visit_id x = ca_visitId rq) (\<lambda>x. ?u) (visits db)"
    using v by (simp add: cancelVisit_def Let_def updateVisitRow_def)
  moreover have "isTerminal (visit_status ?u)" by (simp add: isTerminal_def)
  ultimately show ?thesis using v by blast
next
  case False
  then have "visits (snd (cancelVisit now rq db)) = visits db"
    by (auto simp: cancelVisit_def split: option.splits)
  then show ?thesis by simp
qed


lemma PUT_visit_500: "PUT_visit now i p db = (Inl InternalError, db)"
  by (simp add: PUT_visit_def withAuth_def withRole_def updateVisit_def)

text \<open>The three ways a step can change the visit table.\<close>

lemma visits_step:
  "visits (step op db) = visits db \<or>
   (\<exists>nv. visit_status nv = IN_PROGRESS \<and> findActiveVisit db (visit_visitorId nv) = None \<and>
         visits (step op db) = visits db @ [nv]) \<or>
   (\<exists>i v u. findVisit db i = Some v \<and> visit_status v = IN_PROGRESS \<and>
          isTerminal (visit_status u) \<and>
          visits (step op db) = updateFirst (\<lambda>x. visit_id x = i) (\<lambda>x. u) (visits db))"
proof (cases op)
  case (CreateVisitOp t1 t2 rq)
  then show ?thesis using visits_createVisit[of t1 t2 rq db] by auto
next
  case (CheckInOp t1 t2 rq)
  then show ?thesis using visits_checkInVisitor[of t1 t2 rq db] by auto
next
  case (CheckOutOp now rq)
  then show ?thesis using visits_checkOutVisitor[of now rq db] by auto
next
  case (CancelOp now rq)
  then show ?thesis using visits_cancelVisit[of now rq db] by auto
next
  case (UpdateVisitOp now i p)
  then show ?thesis by (simp add: PUT_visit_500)
qed

lemma filter_updateFirst_le:
  "(\<And>v. P (f v) \<Longrightarrow> P v) \<Longrightarrow>
   length (filter P (updateFirst q f xs)) \<le> length (filter P xs)"
  by (induction xs) auto

lemma singleActiveVisit_iff:
  "singleActiveVisit db \<longleftrightarrow> (\<forall>x. length (activeVisitsOf db x) \<le> 1)"
proof
  assume s: "singleActiveVisit db"
  show "\<forall>x. length (activeVisitsOf db x) \<le> 1"
  proof
    fix x
    show "length (activeVisitsOf db x) \<le> 1"
    proof (cases "\<exists>v\<in>set (visits db). visit_visitorId v = x")
      case True
      then show ?thesis using s by (auto simp: singleActiveVisit_def list_all_iff)
    next
      case False
      then have "activeVisitsOf db x = []"
        by (auto simp: activeVisitsOf_def filter_empty_conv)
      then show ?thesis by simp
    qed
  qed
next
  assume "\<forall>x. length (activeVisitsOf db x) \<le> 1"
  then show "singleActiveVisit db" by (simp add: singleActiveVisit_def list_all_iff)
qed

lemma singleActiveVisit_step:
  assumes inv: "singleActiveVisit db"
  shows "singleActiveVisit (step op db)"
proof -
  have le: "length (activeVisitsOf db x) \<le> 1" for x
    using inv by (simp add: singleActiveVisit_iff)
  have "length (activeVisitsOf (step op db) x) \<le> 1" for x
  proof -
    let ?P = "\<lambda>v. visit_visitorId v = x \<and> visit_status v = IN_PROGRESS"
    consider (same) "visits (step op db) = visits db"
      | (new) nv where "visit_status nv = IN_PROGRESS"
          "findActiveVisit db (visit_visitorId nv) = None"
          "visits (step op db) = visits db @ [nv]"
      | (close) i u where "isTerminal (visit_status u)"
          "visits (step op db) = updateFirst (\<lambda>x. visit_id x = i) (\<lambda>x. u) (visits db)"
      using visits_step[of op db] by blast
    then show ?thesis
    proof cases
      case same
      then show ?thesis using le[of x] by (simp add: activeVisitsOf_def)
    next
      case new
      show ?thesis
      proof (cases "visit_visitorId nv = x")
        case True
        with new(2) have "filter ?P (visits db) = []"
          by (auto simp: findActiveVisit_def find_None_iff filter_empty_conv)
        then show ?thesis using new(3) by (simp add: activeVisitsOf_def)
      next
        case False
        then show ?thesis using new(3) le[of x] by (simp add: activeVisitsOf_def)
      qed
    next
      case close
      have "length (filter ?P (updateFirst (\<lambda>x. visit_id x = i) (\<lambda>x. u) (visits db)))
              \<le> length (filter ?P (visits db))"
        using close(1) by (intro filter_updateFirst_le) (auto simp: isTerminal_def)
      then show ?thesis using close(2) le[of x] by (simp add: activeVisitsOf_def)
    qed
  qed
  then show ?thesis by (simp add: singleActiveVisit_iff)
qed

text \<open>
  Run one after another, the public operations keep the invariant: from a store in which
  no visitor has two IN_PROGRESS visits, every sequence of them leads to such a store.
\<close>

lemma singleActiveVisit_run: "singleActiveVisit db \<Longrightarrow> singleActiveVisit (run ops db)"
proof (induction ops arbitrary: db)
  case Nil
  then show ?case by (simp add: run_def)
next
  case (Cons op ops)
  from Cons.prems have "singleActiveVisit (step op db)" by (rule singleActiveVisit_step)
  from Cons.IH[OF this] show ?case by (simp add: run_def)
qed

text \<open>The two parts of \<open>createVisit\<close>, run without anything in between, are the handler.\<close>

lemma createVisit_split:
  "createVisit t1 t2 rq db =
     (case createVisitToCheck rq db of
        (Inl e, db1) \<Rightarrow> (Inl e, db1)
      | (Inr u, db1) \<Rightarrow> createVisitFromCreate t1 t2 rq db1)"
  by (simp add: createVisit_def createVisitToCheck_def createVisitFromCreate_def
      split: option.splits sum.splits)

lemma activeVisitsOf_shape:
  "map visit_status (activeVisitsOf db x) =
     map (\<lambda>t. snd (snd t)) (filter (\<lambda>t. fst (snd t) = x \<and> snd (snd t) = IN_PROGRESS) (visitShape db))"
  by (simp add: activeVisitsOf_def visitShape_def filter_map comp_def)

lemma exDbRaced_shape:
  "visitShape exDbRaced = [(100, 1, IN_PROGRESS), (101, 1, IN_PROGRESS)]"
  by (simp add: exDbRaced_def visitShape_def createVisitToCheck_def createVisitFromCreate_def
      exDb_def exVisitor_def exCheckIn_def findVisitor_def findUser_def findActiveVisit_def
      newVisit_def insertVisit_def bumpVisitor_def Let_def)

text \<open>
  Claim C2, at an input where the code departs from it. Two check-ins of visitor 1
  through POST /visits overlap on a store with no visit: each runs up to its active-visit
  check before the other has created its visit, so both checks pass, and each then
  creates its row. The store ends with two IN_PROGRESS visits of visitor 1. The same two
  requests run one after another end with one visit and a 409 for the second (and
  \<open>singleActiveVisit_run\<close> above: without overlap the invariant holds after every
  sequence of the public operations).
\<close>

theorem overlapping_checkIns_failing_input:
  "singleActiveVisit exDb \<and>
   fst (createVisitToCheck (exCheckIn 10 None) exDb) = Inr () \<and>
   fst (createVisitToCheck (exCheckIn 11 None)
          (snd (createVisitToCheck (exCheckIn 10 None) exDb))) = Inr () \<and>
   visitShape exDbRaced = [(100, 1, IN_PROGRESS), (101, 1, IN_PROGRESS)] \<and>
   map visit_status (activeVisitsOf exDbRaced 1) = [IN_PROGRESS, IN_PROGRESS] \<and>
   \<not> singleActiveVisit exDbRaced \<and>
   fst (createVisit 3000 3001 (exCheckIn 11 None)
          (snd (createVisit 1000 1001 (exCheckIn 10 None) exDb))) =
     Inl (Conflict ''Visitor already has an active visit'')"
proof -
  have a: "map visit_status (activeVisitsOf exDbRaced 1) = [IN_PROGRESS, IN_PROGRESS]"
    by (simp add: activeVisitsOf_shape exDbRaced_shape)
  then have "length (activeVisitsOf exDbRaced 1) = 2"
    by (metis length_map length_Cons list.size(3) numeral_2_eq_2)
  then have n: "\<not> singleActiveVisit exDbRaced"
    by (auto simp: singleActiveVisit_iff intro!: exI[of _ 1])
  have i: "singleActiveVisit exDb"
    by (simp add: singleActiveVisit_def exDb_def)
  have c: "fst (createVisitToCheck (exCheckIn 10 None) exDb) = Inr () \<and>
     fst (createVisitToCheck (exCheckIn 11 None)
          (snd (createVisitToCheck (exCheckIn 10 None) exDb))) = Inr ()"
    by (simp add: createVisitToCheck_def exDb_def exVisitor_def exCheckIn_def findVisitor_def
        findUser_def findActiveVisit_def)
  have s: "fst (createVisit 3000 3001 (exCheckIn 11 None)
          (snd (createVisit 1000 1001 (exCheckIn 10 None) exDb))) =
     Inl (Conflict ''Visitor already has an active visit'')"
    by (simp add: createVisit_def exDb_def exVisitor_def exCheckIn_def findVisitor_def
        findUser_def findActiveVisit_def newVisit_def insertVisit_def bumpVisitor_def Let_def)
  show ?thesis using a n i c s exDbRaced_shape by simp
qed







section \<open>Issue update\<close>

lemma PUT_issue_500: "PUT_issue parse now i p db = (Inl InternalError, db)"
  by (simp add: PUT_issue_def withAuth_def withRole_def updateIssue_def)

text \<open>
  Claim C9, at an input where the code departs from it. Issue 200 is OPEN with no
  resolved date, and PUT /issues/200 carries the status RESOLVED. The route answers 500
  and returns the store unchanged, the resolved date still null: the handler is called
  without the route context and stops at its first statement (\<open>PUT_issue_500\<close> above:
  this is so for every request). The handler's body, given the id, does stamp the
  current time.
\<close>

theorem PUT_issue_failing_input:
  "map (\<lambda>x. (issue_status x, resolvedDate x)) (issues exIssueDb) = [(ISSUE_OPEN, None)] \<and>
   PUT_issue exParse 5000 200 (exSetStatus ISSUE_RESOLVED) exIssueDb =
     (Inl InternalError, exIssueDb) \<and>
   map (\<lambda>x. (issue_status x, resolvedDate x))
     (issues (snd (updateIssue exParse 5000 (Some 200) (exSetStatus ISSUE_RESOLVED) exIssueDb))) =
     [(ISSUE_RESOLVED, Some 5000)]"
  by (simp add: PUT_issue_500)
     (simp add: exIssueDb_def exIssue_def exDb_def exSetStatus_def updateIssue_def findIssue_def
      applyIssuePatch_def resolvedDateUpdate_def patchDate_def storeDate_def applyField_def
      Let_def)

section \<open>Queue order\<close>

lemma priorityOrder_inj [simp]: "priorityOrder p = priorityOrder q \<longleftrightarrow> p = q"
  by (cases p; cases q) simp_all

lemma compareVisits_le: "compareVisits a b \<le> 0 \<longleftrightarrow> sortKey a \<le> sortKey b"
  by (auto simp: compareVisits_def sortKey_def Let_def less_eq_prod_def)

lemma spec_queueBefore_le: "spec_queueBefore a b \<longleftrightarrow> sortKey a \<le> sortKey b"
  by (auto simp: spec_queueBefore_def sortKey_def less_eq_prod_def)

lemma insertBy_insort: "insertBy compareVisits x ys = insort_key sortKey x ys"
  by (induction ys) (simp_all add: compareVisits_le)

lemma jsSort_sort_key: "jsSort compareVisits xs = sort_key sortKey xs"
proof -
  have "insertBy compareVisits = insort_key sortKey"
    by (intro ext) (rule insertBy_insort)
  then show ?thesis by (simp add: jsSort_def sort_key_def)
qed

lemma sorted_wrt_jsSort: "sorted_wrt spec_queueBefore (jsSort compareVisits xs)"
proof -
  have "sorted (map sortKey (sort_key sortKey xs))" by (rule sorted_sort_key)
  then show ?thesis
    by (simp add: jsSort_sort_key sorted_map spec_queueBefore_le [abs_def])
qed

lemma mset_jsSort: "mset (jsSort compareVisits xs) = mset xs"
  by (simp add: jsSort_sort_key)

lemma queueKey_sortKey: "queueKey a = queueKey b \<longleftrightarrow> sortKey a = sortKey b"
  by (auto simp: queueKey_def sortKey_def)

lemma map_queueKey_eq:
  "map sortKey xs = map sortKey ys \<Longrightarrow> map queueKey xs = map queueKey ys"
proof (induction xs arbitrary: ys)
  case Nil
  then show ?case by simp
next
  case (Cons x xs)
  then obtain y ys' where ys: "ys = y # ys'" by (cases ys) auto
  with Cons.prems have "sortKey x = sortKey y" "map sortKey xs = map sortKey ys'" by simp_all
  with Cons.IH[of ys'] ys show ?case by (simp add: queueKey_sortKey)
qed

lemma jsSort_keys_of_mset:
  assumes "mset xs = mset ys"
  shows "map queueKey (jsSort compareVisits xs) = map queueKey (jsSort compareVisits ys)"
proof -
  have "mset (map sortKey xs) = mset (map sortKey ys)" using assms by (metis mset_map)
  then have "sort (map sortKey xs) = sort (map sortKey ys)"
    by (metis properties_for_sort sorted_sort mset_sort)
  moreover have "map sortKey (sort_key sortKey zs) = sort (map sortKey zs)" for zs
  proof -
    have "mset (map sortKey (sort_key sortKey zs)) = mset (map sortKey zs)" by simp
    moreover have "sorted (map sortKey (sort_key sortKey zs))" by (rule sorted_sort_key)
    ultimately show ?thesis by (simp only: properties_for_sort)
  qed
  ultimately show ?thesis
    by (intro map_queueKey_eq) (simp add: jsSort_sort_key)
qed

text \<open>
  Claim C6. The queue view returns exactly the fetched IN_PROGRESS visits (of the given
  staff user, when one is given), each with its linked appointment, in an order in which
  every row stands before every later row by priority descending (URGENT, HIGH, NORMAL,
  LOW) and, among equal priorities, check-in time ascending; a row without a linked
  appointment counts as NORMAL. The order is computed from the fetched rows alone: two
  fetches with the same rows give the same sequence of priorities and check-in times.
\<close>

theorem queue_order:
  "mset (sortedActiveVisits db userId) =
     mset (map (includeAppointment db)
            (filter (\<lambda>v. visit_status v = IN_PROGRESS \<and> userMatches userId v) (visits db))) \<and>
   sorted_wrt spec_queueBefore (sortedActiveVisits db userId) \<and>
   (\<forall>r\<in>set (sortedActiveVisits db userId). qr_appointment r = None \<longrightarrow> rowPriority r = NORMAL) \<and>
   (mset (activeVisits db userId) = mset (activeVisits db' userId') \<longrightarrow>
      map queueKey (sortedActiveVisits db userId) = map queueKey (sortedActiveVisits db' userId'))"
proof (intro conjI)
  show "mset (sortedActiveVisits db userId) =
     mset (map (includeAppointment db)
            (filter (\<lambda>v. visit_status v = IN_PROGRESS \<and> userMatches userId v) (visits db)))"
    by (simp add: sortedActiveVisits_def mset_jsSort activeVisits_def)
  show "sorted_wrt spec_queueBefore (sortedActiveVisits db userId)"
    by (simp add: sortedActiveVisits_def sorted_wrt_jsSort)
  show "\<forall>r\<in>set (sortedActiveVisits db userId). qr_appointment r = None \<longrightarrow> rowPriority r = NORMAL"
    by (simp add: rowPriority_def)
  show "mset (activeVisits db userId) = mset (activeVisits db' userId') \<longrightarrow>
      map queueKey (sortedActiveVisits db userId) = map queueKey (sortedActiveVisits db' userId')"
    unfolding sortedActiveVisits_def by (intro impI) (rule jsSort_keys_of_mset)
qed

lemma exQueue_fields:
  "visit_status exVisitA = IN_PROGRESS" "visit_status exVisitB = IN_PROGRESS"
  "visit_status exVisitC = IN_PROGRESS" "visit_status exVisitD = IN_PROGRESS"
  "visit_status exVisitE = COMPLETED"
  "visit_userId exVisitA = 10" "visit_userId exVisitB = 10" "visit_userId exVisitC = 10"
  "visit_userId exVisitD = 10" "visit_userId exVisitE = 10"
  "appointmentId exVisitA = Some 300" "appointmentId exVisitB = None"
  "appointmentId exVisitC = Some 301" "appointmentId exVisitD = None"
  "checkInTime exVisitA = 1000" "checkInTime exVisitB = 2000" "checkInTime exVisitC = 3000"
  "checkInTime exVisitD = 1500"
  "visit_id exVisitA = 400" "visit_id exVisitB = 401" "visit_id exVisitC = 402"
  "visit_id exVisitD = 403"
  "appt_id exApptLow = 300" "appt_id exApptUrgent = 301"
  "priority exApptLow = LOW" "priority exApptUrgent = URGENT"
  by (simp_all add: exVisitA_def exVisitB_def exVisitC_def exVisitD_def exVisitE_def
      exApptLow_def exApptUrgent_def exVisit_def exAppointment_def)

lemma exRow_fields [simp]: "qr_visit (exRow v a) = v" "qr_appointment (exRow v a) = a"
  by (simp_all add: exRow_def)

lemma exQueue_active:
  "activeVisits exQueueDb None =
     [exRow exVisitA (Some exApptLow), exRow exVisitD None, exRow exVisitB None,
      exRow exVisitC (Some exApptUrgent)]"
  by (simp add: activeVisits_def exQueueDb_def exDb_def exQueue_fields includeAppointment_def
      findAppointment_def userMatches_def exRow_def [symmetric])

lemma exQueue_active_other: "activeVisits exQueueDb (Some 11) = []"
  by (simp add: activeVisits_def exQueueDb_def exDb_def exQueue_fields userMatches_def)

lemma exQueue_sorted:
  "sortedActiveVisits exQueueDb None =
     [exRow exVisitC (Some exApptUrgent), exRow exVisitD None, exRow exVisitB None,
      exRow exVisitA (Some exApptLow)]"
  by (simp add: sortedActiveVisits_def exQueue_active jsSort_def compareVisits_def
      rowPriority_def exQueue_fields)

theorem queue_order_witness:
  "sortedActiveVisits exQueueDb None =
     [exRow exVisitC (Some exApptUrgent), exRow exVisitD None, exRow exVisitB None,
      exRow exVisitA (Some exApptLow)] \<and>
   map queueKey (sortedActiveVisits exQueueDb None) =
     [(URGENT, 3000), (NORMAL, 1500), (NORMAL, 2000), (LOW, 1000)] \<and>
   sorted_wrt spec_queueBefore (sortedActiveVisits exQueueDb None) \<and>
   sortedActiveVisits exQueueDb (Some 11) = [] \<and>
   mset (activeVisits exQueueDb None) = mset (activeVisits (exQueueDb\<lparr>nextId := 7\<rparr>) None) \<and>
   map queueKey (sortedActiveVisits (exQueueDb\<lparr>nextId := 7\<rparr>) None) =
     [(URGENT, 3000), (NORMAL, 1500), (NORMAL, 2000), (LOW, 1000)]"
proof -
  have same: "activeVisits (exQueueDb\<lparr>nextId := 7\<rparr>) None = activeVisits exQueueDb None"
  proof -
    have "includeAppointment (exQueueDb\<lparr>nextId := 7\<rparr>) = includeAppointment exQueueDb"
      by (intro ext) (simp add: includeAppointment_def findAppointment_def cong: option.case_cong)
    then show ?thesis by (simp add: activeVisits_def)
  qed
  have keys: "map queueKey (sortedActiveVisits exQueueDb None) =
     [(URGENT, 3000), (NORMAL, 1500), (NORMAL, 2000), (LOW, 1000)]"
    by (simp add: exQueue_sorted queueKey_def rowPriority_def exQueue_fields)
  have other: "sortedActiveVisits exQueueDb (Some 11) = []"
    by (simp add: sortedActiveVisits_def exQueue_active_other jsSort_def)
  show ?thesis
    using queue_order [of exQueueDb None "exQueueDb\<lparr>nextId := 7\<rparr>" None] same keys other
      exQueue_sorted
    by simp
qed

section \<open>Queue statistics\<close>

lemma totalWaitTime_no_appointment:
  "list_all (\<lambda>r. qr_appointment r = None) rows \<Longrightarrow> foldl (\<lambda>sum visit.
              case qr_appointment visit of
                Some appointment \<Rightarrow> sum + (checkInTime (qr_visit visit) - startTime appointment)
              | None \<Rightarrow> sum) acc rows = acc"
  by (induction rows arbitrary: acc) auto

lemma averageWaitTime_completedVisitsToday:
  "averageWaitTime (completedVisitsToday db today tomorrow userId) = 0"
proof -
  have "list_all (\<lambda>r. qr_appointment r = None) (completedVisitsToday db today tomorrow userId)"
    by (simp add: completedVisitsToday_def list_all_iff)
  then have "totalWaitTime (completedVisitsToday db today tomorrow userId) = 0"
    unfolding totalWaitTime_def by (rule totalWaitTime_no_appointment)
  then show ?thesis by (simp add: averageWaitTime_def)
qed

text \<open>
  Claim C7, at an input where the code departs from it. The store holds one visit,
  completed today, linked to an appointment that starts at 10:00; the visitor checked in
  at 10:10 and out at 10:40. The handler reports an average visit duration of 30 minutes
  and an average wait of 0, where the mean of check-in time minus appointment start is
  10 minutes: the query for today's completed visits does not include the appointment
  relation, so the wait sum never adds a term (\<open>averageWaitTime_completedVisitsToday\<close>
  above: the reported average wait is 0 for every store).
\<close>

theorem averageWaitTime_failing_input:
  "queueStats exStatsDb 1704844800000 1704931200000 None = (0, 1, 0, 30) \<and>
   spec_averageWaitTime exStatsDb 1704844800000 1704931200000 None = 10"
  by (simp add: queueStats_def spec_averageWaitTime_def exStatsDb_def ex_values
      completedVisitsToday_def activeVisits_def userMatches_def averageWaitTime_def
      averageVisitDuration_def totalWaitTime_def totalDuration_def includeAppointment_def
      findAppointment_def Let_def)

section \<open>Free slots\<close>

lemma exCalendar_fetch:
  "calendarFetch exCalendarDb 1704844800000 1704844800000 (Some 10) =
     [exAppointment\<lparr>appt_status := APPT_CANCELLED\<rparr>]"
  by (simp add: calendarFetch_def exCalendarDb_def ex_values)

lemma exCandidates:
  "candidateSlots 0 19732 =
    [(1704877200000, 1704879000000), (1704879000000, 1704880800000),
     (1704880800000, 1704882600000), (1704882600000, 1704884400000),
     (1704884400000, 1704886200000), (1704886200000, 1704888000000),
     (1704888000000, 1704889800000), (1704889800000, 1704891600000),
     (1704891600000, 1704893400000), (1704893400000, 1704895200000),
     (1704895200000, 1704897000000), (1704897000000, 1704898800000),
     (1704898800000, 1704900600000), (1704900600000, 1704902400000),
     (1704902400000, 1704904200000), (1704904200000, 1704906000000)]"
  by (simp add: candidateSlots_def slotStart_def upt_rec)

lemma exCalendar_slots:
  "availableSlots 0 exCalendarDb 1704844800000 1704844800000 (Some 10) =
    [(19732,
      [(1704877200000, 1704879000000), (1704879000000, 1704880800000),
       (1704882600000, 1704884400000),
       (1704884400000, 1704886200000), (1704886200000, 1704888000000),
       (1704888000000, 1704889800000), (1704889800000, 1704891600000),
       (1704891600000, 1704893400000), (1704893400000, 1704895200000),
       (1704895200000, 1704897000000), (1704897000000, 1704898800000),
       (1704898800000, 1704900600000), (1704900600000, 1704902400000),
       (1704902400000, 1704904200000), (1704904200000, 1704906000000)])]"
  by (simp add: availableSlots_def exCalendar_fetch Let_def)
     (simp add: exCandidates appointmentsByDate_def dateKey_def isAvailable_def ex_values)

text \<open>
  Claim C3, at an input where the code departs from it. Staff user 10 has a single
  appointment on 2024-01-10, from 10:00 to 10:30, and it is CANCELLED. No non-cancelled
  appointment overlaps the 10:00 slot, yet the handler leaves that slot out of the day's
  available slots (15 of the 16 candidates are reported): the availability test runs
  over every appointment of the day, whatever its status.
\<close>

theorem availableSlots_failing_input:
  "spec_slotFree exCalendarDb 10 19732 exSlot \<and>
   exSlot \<in> set (candidateSlots 0 19732) \<and>
   map (\<lambda>r. (fst r, length (snd r), exSlot \<in> set (snd r)))
     (availableSlots 0 exCalendarDb 1704844800000 1704844800000 (Some 10)) =
     [(19732, 15, False)]"
  by (simp add: exCalendar_slots exCandidates)
     (simp add: spec_slotFree_def exCalendarDb_def exSlot_def ex_values dateKey_def)

end
